theory Spec2Isabelle
  imports Complex_Main "HOL-Library.Word"
begin

section \<open>Values, errors and arrays\<close>

text \<open>
  The script \<^verbatim>\<open>reconstructing_eae_kodak.py\<close> evaluates entropy autoencoders on a set
  of luminance images. Its two sweep functions, \<^verbatim>\<open>fix_gamma\<close> and
  \<^verbatim>\<open>vary_gamma_fix_bin_widths\<close>, are embedded below. A Python exception is a value of
  type \<open>error\<close>; a statement that may raise returns \<open>error + 'a\<close> together with
  the state it leaves behind. Floating-point numbers are modelled as reals, and the one
  non-real value the results can hold, \<open>+inf\<close>, is a constructor of its own.
\<close>

datatype error =
    ModelLoadError | ShapeMismatchError | UncodableChannelError
  | AggregationConflictError | ExternalToolError
  | AssertionError | ValueError | IndexError | ZeroDivisionError | NameError | IOError

datatype float64 = Finite real | PlusInf

type_synonym uint8 = "8 word"
type_synonym image = "uint8 list list"
type_synonym tensor3 = "real list list list"
type_synonym tensor4 = "real list list list list"

text \<open>
  Arrays are nested lists, outermost axis first. \<open>shape3\<close> and \<open>shape4\<close> read the
  attribute \<^verbatim>\<open>.shape\<close>; an axis below an empty axis reads 0, where numpy would still
  know its size.
\<close>

definition shape3 :: "'a list list list \<Rightarrow> nat \<times> nat \<times> nat" where
  "shape3 a =
     (length a,
      (case a of [] \<Rightarrow> 0 | m # _ \<Rightarrow> length m),
      (case a of [] \<Rightarrow> 0 | m # _ \<Rightarrow> (case m of [] \<Rightarrow> 0 | r # _ \<Rightarrow> length r)))"

definition shape4_1 :: "'a list list list list \<Rightarrow> nat" where
  "shape4_1 a = (case a of [] \<Rightarrow> 0 | m # _ \<Rightarrow> length m)"

definition shape4_2 :: "'a list list list list \<Rightarrow> nat" where
  "shape4_2 a = (case a of [] \<Rightarrow> 0 | m # _ \<Rightarrow> (case m of [] \<Rightarrow> 0 | r # _ \<Rightarrow> length r))"

definition numpy_zeros :: "nat \<Rightarrow> nat \<Rightarrow> real list list" where
  "numpy_zeros n m = replicate n (replicate m 0)"

definition numpy_expand_dims3 :: "'a list list list \<Rightarrow> 'a list list list list" where
  "numpy_expand_dims3 a = map (map (map (\<lambda>v. [v]))) a"

text \<open>\<^verbatim>\<open>numpy.tile(v, (n, h, w, 1))\<close> for a vector \<open>v\<close>.\<close>

definition numpy_tile4 :: "'a list \<Rightarrow> nat \<Rightarrow> nat \<Rightarrow> nat \<Rightarrow> 'a list list list list" where
  "numpy_tile4 v n h w = replicate n (replicate h (replicate w v))"

text \<open>
  Elementwise arithmetic of two arrays with the same number of axes, as numpy broadcasts
  them: along every axis the two sizes are equal, or one of them is one and that operand
  is repeated along the axis; otherwise numpy raises \<^verbatim>\<open>ValueError\<close>. The four axes are
  handled from the outermost to the innermost.
\<close>

fun sequence_list :: "(error + 'a) list \<Rightarrow> error + 'a list" where
  "sequence_list [] = Inr []"
| "sequence_list (r # rs) =
     (case r of
        Inl e \<Rightarrow> Inl e
      | Inr a \<Rightarrow> (case sequence_list rs of Inl e \<Rightarrow> Inl e | Inr as \<Rightarrow> Inr (a # as)))"

definition broadcast_axis :: "('a \<Rightarrow> 'b \<Rightarrow> error + 'c) \<Rightarrow> 'a list \<Rightarrow> 'b list \<Rightarrow> error + 'c list" where
  "broadcast_axis f xs ys =
     (if length xs = length ys then sequence_list (map2 f xs ys)
      else if length xs = 1 then sequence_list (map (f (hd xs)) ys)
      else if length ys = 1 then sequence_list (map (\<lambda>x. f x (hd ys)) xs)
      else Inl ValueError)"

definition broadcast4 :: "(real \<Rightarrow> real \<Rightarrow> real) \<Rightarrow> tensor4 \<Rightarrow> tensor4 \<Rightarrow> error + tensor4" where
  "broadcast4 f a b =
     broadcast_axis (broadcast_axis (broadcast_axis (broadcast_axis (\<lambda>x y. Inr (f x y))))) a b"

definition array_sub :: "tensor4 \<Rightarrow> tensor4 \<Rightarrow> error + tensor4" where
  "array_sub a b = broadcast4 (\<lambda>x y. x - y) a b"

definition array_add :: "tensor4 \<Rightarrow> tensor4 \<Rightarrow> error + tensor4" where
  "array_add a b = broadcast4 (\<lambda>x y. x + y) a b"

text \<open>The sizes of the axes of an array below the first, and the elementwise operation
  on two arrays of the same shape.\<close>

definition array_shape :: "'a list list list list \<Rightarrow> nat list list list" where
  "array_shape a = map (map (map length)) a"

definition zip_with4 :: "('a \<Rightarrow> 'b \<Rightarrow> 'c) \<Rightarrow> 'a list list list list \<Rightarrow> 'b list list list list
    \<Rightarrow> 'c list list list list" where
  "zip_with4 f a b = map2 (map2 (map2 (map2 f))) a b"

text \<open>\<^verbatim>\<open>numpy.squeeze(a, axis=3)\<close> raises unless the last axis has size one.\<close>

definition numpy_squeeze3 :: "'a list list list list \<Rightarrow> error + 'a list list list" where
  "numpy_squeeze3 a =
     (if list_all (list_all (list_all (\<lambda>px. length px = 1))) a
      then Inr (map (map (map hd)) a) else Inl ValueError)"

text \<open>\<^verbatim>\<open>a[j]\<close> for \<open>j\<close> from a \<^verbatim>\<open>range\<close>: an index past the first axis raises.\<close>

definition getitem :: "'a list \<Rightarrow> nat \<Rightarrow> error + 'a" where
  "getitem a j = (if j < length a then Inr (a ! j) else Inl IndexError)"

subsection \<open>Strings and paths\<close>

fun str_nat :: "nat \<Rightarrow> string" where
  "str_nat n =
     (if n < 10 then [''0123456789'' ! n]
      else str_nat (n div 10) @ [''0123456789'' ! (n mod 10)])"

declare str_nat.simps [simp del]

definition str_int :: "int \<Rightarrow> string" where
  "str_int k = (if k < 0 then ''-'' @ str_nat (nat (- k)) else str_nat (nat k))"

definition os_path_join :: "string \<Rightarrow> string \<Rightarrow> string" where
  "os_path_join a b =
     (if b \<noteq> [] \<and> hd b = CHR ''/'' then b
      else if a = [] \<or> last a = CHR ''/'' then a @ b
      else a @ ''/'' @ b)"

section \<open>The helpers of \<^verbatim>\<open>tools.tools\<close>\<close>

text \<open>
  Modelled from the spec: \<^verbatim>\<open>tls.quantize_per_map\<close> and \<^verbatim>\<open>tls.psnr_2d\<close> are defined in
  \<^verbatim>\<open>tools/tools.py\<close>, which is not among the sources. Section 4.3 of the specification
  gives the quantizer: the nearest multiple of the bin width of the channel, ties rounded
  away from zero. Section 4.5 gives the PSNR: the mean squared error of the reference and
  the reconstruction is taken, and the PSNR is \<open>+inf\<close> when that error is zero and
  \<open>10 log10 (peak^2 / mse)\<close> otherwise, with \<open>peak\<close> the full range of a sample,
  255 for \<^verbatim>\<open>uint8\<close>; shapes that differ are a \<^verbatim>\<open>ShapeMismatchError\<close>. The cast
  \<^verbatim>\<open>tls.cast_bt601\<close> is in the same module; the specification gives neither its range
  nor its rounding, and it is one of the collaborators below.
\<close>

definition round_half_away :: "real \<Rightarrow> int" where
  "round_half_away x = (if 0 \<le> x then \<lfloor>x + 1 / 2\<rfloor> else \<lceil>x - 1 / 2\<rceil>)"

definition quantize_value :: "real \<Rightarrow> real \<Rightarrow> real" where
  "quantize_value x b = of_int (round_half_away (x / b)) * b"

definition quantize_per_map :: "tensor4 \<Rightarrow> real list \<Rightarrow> tensor4" where
  "quantize_per_map y bin_widths = map (map (map (\<lambda>px. map2 quantize_value px bin_widths))) y"

definition squared_errors :: "image \<Rightarrow> image \<Rightarrow> real list" where
  "squared_errors reference reconstruction =
     map (\<lambda>(x, y). (real (unat x) - real (unat y))\<^sup>2) (zip (concat reference) (concat reconstruction))"

definition numpy_mean :: "real list \<Rightarrow> real" where
  "numpy_mean xs = sum_list xs / real (length xs)"

definition psnr_2d :: "image \<Rightarrow> image \<Rightarrow> error + float64" where
  "psnr_2d reference reconstruction =
     (if map length reference \<noteq> map length reconstruction then Inl ShapeMismatchError
      else let mse = numpy_mean (squared_errors reference reconstruction)
           in if mse = 0 then Inr PlusInf else Inr (Finite (10 * log 10 (255\<^sup>2 / mse))))"

section \<open>State, effects and the collaborators of the script\<close>

text \<open>
  The state of a sweep is the two result matrices, which the script holds in the local
  variables \<^verbatim>\<open>rate\<close> and \<^verbatim>\<open>psnr\<close>, and the trace of the effects of the run: what
  happens to the default graph and the sessions of TensorFlow, what the decoder and the
  lossless coder are given, and which cells of the matrices are assigned.
\<close>

datatype 'x event =
    EncoderBuilt | DecoderBuilt | SessionOpened | SessionClosed | GraphReset
  | DecoderFed tensor4
  | CoderInvoked tensor3 "real list" string 'x
  | RateWritten nat nat real
  | PsnrWritten nat nat float64

record 'x sweep_state =
  rate :: "real list list"
  psnr :: "float64 list list"
  trace :: "'x event list"

type_synonym ('a, 'x) run = "'x sweep_state \<Rightarrow> (error + 'a) \<times> 'x sweep_state"

text \<open>
  The functions the script imports and calls. A model restored in a session is named by
  the built graph and the checkpoint path, so the functions that run in a session take
  both. \<open>'ae\<close> and \<open>'dec\<close> are the built graphs, \<open>'x\<close> is the unpickled
  \<^verbatim>\<open>idx_map_exception\<close>.
\<close>

record ('ae, 'dec, 'x) env =
  float_to_str :: "real \<Rightarrow> string"
  EntropyAutoencoder :: "nat \<Rightarrow> nat \<Rightarrow> nat \<Rightarrow> real \<Rightarrow> real \<Rightarrow> string \<Rightarrow> bool \<Rightarrow> error + 'ae"
  ae_initialization :: "'ae \<Rightarrow> string \<Rightarrow> error option"
  encode_mini_batches :: "uint8 list list list list \<Rightarrow> 'ae \<Rightarrow> string \<Rightarrow> nat \<Rightarrow> error + tensor4"
  get_bin_widths :: "'ae \<Rightarrow> string \<Rightarrow> real list"
  IsolatedDecoder :: "nat \<Rightarrow> nat \<Rightarrow> nat \<Rightarrow> bool \<Rightarrow> error + 'dec"
  dec_initialization :: "'dec \<Rightarrow> string \<Rightarrow> error option"
  node_reconstruction :: "'dec \<Rightarrow> string \<Rightarrow> tensor4 \<Rightarrow> error + tensor4"
  numpy_load :: "string \<Rightarrow> error + real list"
  pickle_load :: "string \<Rightarrow> error + 'x"
  rescale_compress_lossless_maps :: "tensor3 \<Rightarrow> real list \<Rightarrow> string \<Rightarrow> 'x \<Rightarrow> error + int"
  rate_3d :: "tensor3 \<Rightarrow> real list \<Rightarrow> nat \<Rightarrow> nat \<Rightarrow> error + real"
  cast_bt601 :: "tensor4 \<Rightarrow> error + uint8 list list list list"
  visualize_rotated_luminance :: "image \<Rightarrow> bool \<Rightarrow> int list list \<Rightarrow> string list \<Rightarrow> error option"

subsection \<open>Statements\<close>

definition ret :: "'a \<Rightarrow> ('a, 'x) run" where
  "ret a s = (Inr a, s)"

definition and_then :: "('a, 'x) run \<Rightarrow> ('a \<Rightarrow> ('b, 'x) run) \<Rightarrow> ('b, 'x) run" where
  "and_then m f s = (case m s of (Inl e, s') \<Rightarrow> (Inl e, s') | (Inr a, s') \<Rightarrow> f a s')"

text \<open>A call that raises or returns, and leaves the state alone.\<close>

definition call :: "error + 'a \<Rightarrow> ('a, 'x) run" where
  "call r s = (r, s)"

definition check :: "error option \<Rightarrow> (unit, 'x) run" where
  "check r s = ((case r of None \<Rightarrow> Inr () | Some e \<Rightarrow> Inl e), s)"

definition emit :: "'x event \<Rightarrow> (unit, 'x) run" where
  "emit e s = (Inr (), s\<lparr>trace := trace s @ [e]\<rparr>)"

text \<open>
  \<^verbatim>\<open>with tf.Session() as sess: body\<close>. The context manager closes the session when the
  body returns and when it raises; the exception then goes on.
\<close>

definition with_tf_Session :: "('a, 'x) run \<Rightarrow> ('a, 'x) run" where
  "with_tf_Session body s =
     (case body (s\<lparr>trace := trace s @ [SessionOpened]\<rparr>) of
        (r, s') \<Rightarrow> (r, s'\<lparr>trace := trace s' @ [SessionClosed]\<rparr>))"

text \<open>\<^verbatim>\<open>for i in range(n): body\<close> is \<open>for_range [0..<n] body\<close>; an exception leaves the loop.\<close>

fun for_range :: "nat list \<Rightarrow> (nat \<Rightarrow> (unit, 'x) run) \<Rightarrow> (unit, 'x) run" where
  "for_range [] body s = (Inr (), s)"
| "for_range (i # rest) body s =
     (case body i s of (Inl e, s') \<Rightarrow> (Inl e, s') | (Inr _, s') \<Rightarrow> for_range rest body s')"

text \<open>\<^verbatim>\<open>m[i, j] = v\<close> on a two-dimensional array: an index out of bounds raises.\<close>

definition setitem2 :: "'a list list \<Rightarrow> nat \<Rightarrow> nat \<Rightarrow> 'a \<Rightarrow> error + 'a list list" where
  "setitem2 m i j v =
     (if i < length m \<and> j < length (m ! i) then Inr (m[i := (m ! i)[j := v]]) else Inl IndexError)"

definition set_rate :: "nat \<Rightarrow> nat \<Rightarrow> real \<Rightarrow> (unit, 'x) run" where
  "set_rate i j v s =
     (case setitem2 (rate s) i j v of
        Inl e \<Rightarrow> (Inl e, s)
      | Inr m \<Rightarrow> (Inr (), s\<lparr>rate := m, trace := trace s @ [RateWritten i j v]\<rparr>))"

definition set_psnr :: "nat \<Rightarrow> nat \<Rightarrow> float64 \<Rightarrow> (unit, 'x) run" where
  "set_psnr i j v s =
     (case setitem2 (psnr s) i j v of
        Inl e \<Rightarrow> (Inl e, s)
      | Inr m \<Rightarrow> (Inr (), s\<lparr>psnr := m, trace := trace s @ [PsnrWritten i j v]\<rparr>))"

text \<open>The state after lines 109-110 and 290-291: both matrices are \<^verbatim>\<open>numpy.zeros\<close>.\<close>

definition initial_state :: "nat \<Rightarrow> nat \<Rightarrow> 'x sweep_state" where
  "initial_state nb_points nb_images =
     \<lparr>rate = numpy_zeros nb_points nb_images,
      psnr = map (map Finite) (numpy_zeros nb_points nb_images),
      trace = []\<rparr>"

subsection \<open>Paths\<close>

definition suffix_of :: "('ae, 'dec, 'x) env \<Rightarrow> bool \<Rightarrow> real \<Rightarrow> real \<Rightarrow> string" where
  "suffix_of env are_bin_widths_learned bin_width_init gamma_scaling =
     (if are_bin_widths_learned
      then ''learning_bw_'' @ float_to_str env bin_width_init @ ''_'' @ float_to_str env gamma_scaling
      else float_to_str env bin_width_init @ ''_'' @ float_to_str env gamma_scaling)"

definition path_to_nb_itvs_per_side_load_of :: "string \<Rightarrow> int \<Rightarrow> string" where
  "path_to_nb_itvs_per_side_load_of suffix idx_training =
     ''eae/results/'' @ suffix @ ''/nb_itvs_per_side_'' @ str_int idx_training @ ''.pkl''"

definition path_to_restore_of :: "string \<Rightarrow> int \<Rightarrow> string" where
  "path_to_restore_of suffix idx_training =
     ''eae/results/'' @ suffix @ ''/model_'' @ str_int idx_training @ ''.ckpt''"

definition path_to_stats_of :: "string \<Rightarrow> int \<Rightarrow> string" where
  "path_to_stats_of suffix idx_training =
     ''lossless/results/'' @ suffix @ ''/training_index_'' @ str_int idx_training @ ''/''"

definition path_to_vis_of :: "string \<Rightarrow> string \<Rightarrow> bool \<Rightarrow> string" where
  "path_to_vis_of path_to_checking_r suffix is_lossless =
     (if is_lossless then path_to_checking_r @ ''reconstruction_fix_gamma/'' @ suffix @ ''/lossless/''
      else path_to_checking_r @ ''reconstruction_fix_gamma/'' @ suffix @ ''/approx/'')"

definition path_to_binary_probabilities_of :: "string \<Rightarrow> string \<Rightarrow> string" where
  "path_to_binary_probabilities_of path_to_stats str_multiplier =
     os_path_join path_to_stats (''binary_probabilities_'' @ str_multiplier @ ''.npy'')"

text \<open>The list \<^verbatim>\<open>paths\<close> of lines 201-202 and 352-353.\<close>

definition reconstruction_paths :: "string \<Rightarrow> nat \<Rightarrow> int list list \<Rightarrow> string list" where
  "reconstruction_paths path_to_storage j positions_top_left =
     [os_path_join path_to_storage (''reconstruction_'' @ str_nat j @ ''.png'')] @
     map (\<lambda>index_crop. os_path_join path_to_storage
            (''reconstruction_'' @ str_nat j @ ''_crop_'' @ str_nat index_crop @ ''.png''))
         [0..<(case positions_top_left of [] \<Rightarrow> 0 | r # _ \<Rightarrow> length r)]"

section \<open>The sweep with one autoencoder: \<^verbatim>\<open>fix_gamma\<close>\<close>

text \<open>
  Lines 187-206, the body of \<^verbatim>\<open>for j in range(nb_images)\<close>. The right-hand side of an
  assignment is evaluated before the cell is stored. \<^verbatim>\<open>idx_map_exception\<close> is bound
  only when \<^verbatim>\<open>is_lossless\<close> holds (lines 160-162).
\<close>

definition fix_gamma_image ::
  "('ae, 'dec, 'x) env \<Rightarrow> uint8 list list list \<Rightarrow> nat \<Rightarrow> nat \<Rightarrow> bool \<Rightarrow> 'x option \<Rightarrow> int list
    \<Rightarrow> int list list \<Rightarrow> tensor4 \<Rightarrow> real list \<Rightarrow> string \<Rightarrow> string \<Rightarrow> uint8 list list list
    \<Rightarrow> nat \<Rightarrow> nat \<Rightarrow> (unit, 'x) run" where
  "fix_gamma_image env reference_uint8 h_in w_in is_lossless idx_map_exception list_rotation
      positions_top_left centered_quantized_y_float32 bin_widths_test
      path_to_binary_probabilities path_to_storage reconstruction_uint8 i j =
     and_then
       (if is_lossless then
          and_then (call (getitem centered_quantized_y_float32 j)) (\<lambda>y_j.
          and_then (call (case idx_map_exception of None \<Rightarrow> Inl NameError | Some x \<Rightarrow> Inr x)) (\<lambda>x.
          and_then (emit (CoderInvoked y_j bin_widths_test path_to_binary_probabilities x)) (\<lambda>_.
          and_then (call (rescale_compress_lossless_maps env y_j bin_widths_test
                            path_to_binary_probabilities x)) (\<lambda>nb_bits.
          and_then (call (if h_in * w_in = 0 then Inl ZeroDivisionError
                          else Inr (real_of_int nb_bits / real (h_in * w_in)))) (\<lambda>v.
          set_rate i j v)))))
        else
          and_then (call (getitem centered_quantized_y_float32 j)) (\<lambda>y_j.
          and_then (call (rate_3d env y_j bin_widths_test h_in w_in)) (\<lambda>v.
          set_rate i j v)))
       (\<lambda>_.
     and_then (call (getitem reference_uint8 j)) (\<lambda>reference_j.
     and_then (call (getitem reconstruction_uint8 j)) (\<lambda>reconstruction_j.
     and_then (call (psnr_2d reference_j reconstruction_j)) (\<lambda>v.
     and_then (set_psnr i j v) (\<lambda>_.
     check (visualize_rotated_luminance env reconstruction_j (int j \<in> set list_rotation)
              positions_top_left (reconstruction_paths path_to_storage j positions_top_left)))))))"

text \<open>Lines 167-206, the body of \<^verbatim>\<open>for i in range(nb_points)\<close>.\<close>

definition fix_gamma_point ::
  "('ae, 'dec, 'x) env \<Rightarrow> uint8 list list list \<Rightarrow> nat \<Rightarrow> nat \<Rightarrow> nat \<Rightarrow> bool \<Rightarrow> 'x option
    \<Rightarrow> int list \<Rightarrow> int list list \<Rightarrow> real list \<Rightarrow> real list \<Rightarrow> tensor4 \<Rightarrow> tensor4 \<Rightarrow> 'dec
    \<Rightarrow> string \<Rightarrow> string \<Rightarrow> string \<Rightarrow> nat \<Rightarrow> (unit, 'x) run" where
  "fix_gamma_point env reference_uint8 nb_images h_in w_in is_lossless idx_map_exception
      list_rotation positions_top_left multipliers bin_widths centered_y_float32 tiled_map_mean
      isolated_decoder path_to_restore path_to_stats path_to_vis i =
     and_then (call (getitem multipliers i)) (\<lambda>multiplier.
     let str_multiplier = float_to_str env multiplier;
         bin_widths_test = map (\<lambda>b. multiplier * b) bin_widths;
         centered_quantized_y_float32 = quantize_per_map centered_y_float32 bin_widths_test
     in
     and_then (call (array_add centered_quantized_y_float32 tiled_map_mean))
       (\<lambda>off_centered_quantized_y_float32.
     and_then (emit (DecoderFed off_centered_quantized_y_float32)) (\<lambda>_.
     and_then (call (node_reconstruction env isolated_decoder path_to_restore
                       off_centered_quantized_y_float32)) (\<lambda>reconstruction_float32.
     and_then (call (cast_bt601 env reconstruction_float32)) (\<lambda>reconstruction.
     and_then (call (numpy_squeeze3 reconstruction)) (\<lambda>reconstruction_uint8.
     for_range [0..<nb_images]
       (fix_gamma_image env reference_uint8 h_in w_in is_lossless idx_map_exception list_rotation
          positions_top_left centered_quantized_y_float32 bin_widths_test
          (path_to_binary_probabilities_of path_to_stats str_multiplier)
          (path_to_vis @ ''multiplier_'' @ str_multiplier @ ''/'')
          reconstruction_uint8 i)))))))"

text \<open>
  Lines 107-210. The constructors \<^verbatim>\<open>EntropyAutoencoder\<close> and \<^verbatim>\<open>IsolatedDecoder\<close>
  build their model in the default graph; \<^verbatim>\<open>tf.reset_default_graph()\<close> destroys it.
  The function returns the two matrices, which are the matrices of the final state.
\<close>

definition fix_gamma ::
  "('ae, 'dec, 'x) env \<Rightarrow> uint8 list list list \<Rightarrow> real \<Rightarrow> real list \<Rightarrow> int \<Rightarrow> real \<Rightarrow> bool \<Rightarrow> bool
    \<Rightarrow> string \<Rightarrow> int list \<Rightarrow> int list list \<Rightarrow> (error + unit) \<times> 'x sweep_state" where
  "fix_gamma env reference_uint8 bin_width_init multipliers idx_training gamma_scaling
      are_bin_widths_learned is_lossless path_to_checking_r list_rotation positions_top_left =
     (let nb_points = length multipliers;
          (nb_images, h_in, w_in) = shape3 reference_uint8;
          suffix = suffix_of env are_bin_widths_learned bin_width_init gamma_scaling;
          path_to_nb_itvs_per_side_load = path_to_nb_itvs_per_side_load_of suffix idx_training;
          path_to_restore = path_to_restore_of suffix idx_training;
          path_to_vis = path_to_vis_of path_to_checking_r suffix is_lossless;
          path_to_stats = path_to_stats_of suffix idx_training;
          path_to_map_mean = os_path_join path_to_stats ''map_mean.npy''
      in
      (and_then (call (EntropyAutoencoder env 4 h_in w_in bin_width_init gamma_scaling
                         path_to_nb_itvs_per_side_load are_bin_widths_learned)) (\<lambda>entropy_ae.
       and_then (emit EncoderBuilt) (\<lambda>_.
       and_then (with_tf_Session
                  (and_then (check (ae_initialization env entropy_ae path_to_restore)) (\<lambda>_.
                   and_then (call (encode_mini_batches env (numpy_expand_dims3 reference_uint8)
                                     entropy_ae path_to_restore 4)) (\<lambda>y_float32.
                   ret (y_float32, get_bin_widths env entropy_ae path_to_restore)))))
         (\<lambda>(y_float32, bin_widths).
       and_then (emit GraphReset) (\<lambda>_.
       and_then (call (IsolatedDecoder env nb_images h_in w_in are_bin_widths_learned))
         (\<lambda>isolated_decoder.
       and_then (emit DecoderBuilt) (\<lambda>_.
       and_then (call (numpy_load env path_to_map_mean)) (\<lambda>map_mean.
       let tiled_map_mean = numpy_tile4 map_mean nb_images (shape4_1 y_float32) (shape4_2 y_float32)
       in
       and_then (if is_lossless
                 then and_then (call (pickle_load env (os_path_join path_to_stats ''idx_map_exception.pkl'')))
                        (\<lambda>x. ret (Some x))
                 else ret None) (\<lambda>idx_map_exception.
       and_then (call (array_sub y_float32 tiled_map_mean)) (\<lambda>centered_y_float32.
       and_then (with_tf_Session
                  (and_then (check (dec_initialization env isolated_decoder path_to_restore)) (\<lambda>_.
                   for_range [0..<nb_points]
                     (fix_gamma_point env reference_uint8 nb_images h_in w_in is_lossless
                        idx_map_exception list_rotation positions_top_left multipliers bin_widths
                        centered_y_float32 tiled_map_mean isolated_decoder path_to_restore
                        path_to_stats path_to_vis)))) (\<lambda>_.
       emit GraphReset)))))))))))
        (initial_state nb_points nb_images))"

section \<open>The sweep over autoencoders: \<^verbatim>\<open>vary_gamma_fix_bin_widths\<close>\<close>

text \<open>Lines 345-357, the body of \<^verbatim>\<open>for j in range(nb_images)\<close>.\<close>

definition vary_gamma_image ::
  "('ae, 'dec, 'x) env \<Rightarrow> uint8 list list list \<Rightarrow> nat \<Rightarrow> nat \<Rightarrow> int list \<Rightarrow> int list list
    \<Rightarrow> tensor4 \<Rightarrow> real list \<Rightarrow> string \<Rightarrow> uint8 list list list \<Rightarrow> nat \<Rightarrow> nat \<Rightarrow> (unit, 'x) run" where
  "vary_gamma_image env reference_uint8 h_in w_in list_rotation positions_top_left
      quantized_y_float32 bin_widths path_to_storage reconstruction_uint8 i j =
     and_then (call (getitem quantized_y_float32 j)) (\<lambda>y_j.
     and_then (call (rate_3d env y_j bin_widths h_in w_in)) (\<lambda>v.
     and_then (set_rate i j v) (\<lambda>_.
     and_then (call (getitem reference_uint8 j)) (\<lambda>reference_j.
     and_then (call (getitem reconstruction_uint8 j)) (\<lambda>reconstruction_j.
     and_then (call (psnr_2d reference_j reconstruction_j)) (\<lambda>v.
     and_then (set_psnr i j v) (\<lambda>_.
     check (visualize_rotated_luminance env reconstruction_j (int j \<in> set list_rotation)
              positions_top_left (reconstruction_paths path_to_storage j positions_top_left)))))))))"

text \<open>Lines 293-357, the body of \<^verbatim>\<open>for i in range(nb_points)\<close>.\<close>

definition vary_gamma_point ::
  "('ae, 'dec, 'x) env \<Rightarrow> uint8 list list list \<Rightarrow> nat \<Rightarrow> nat \<Rightarrow> nat \<Rightarrow> real \<Rightarrow> int list \<Rightarrow> real list
    \<Rightarrow> string \<Rightarrow> int list \<Rightarrow> int list list \<Rightarrow> nat \<Rightarrow> (unit, 'x) run" where
  "vary_gamma_point env reference_uint8 nb_images h_in w_in bin_width_init idxs_training
      gammas_scaling path_to_checking_r list_rotation positions_top_left i =
     and_then (call (getitem gammas_scaling i)) (\<lambda>gamma_scaling.
     and_then (call (getitem idxs_training i)) (\<lambda>idx_training.
     let suffix = suffix_of env False bin_width_init gamma_scaling;
         path_to_nb_itvs_per_side_load = path_to_nb_itvs_per_side_load_of suffix idx_training;
         path_to_restore = path_to_restore_of suffix idx_training;
         path_to_storage = path_to_checking_r @ ''reconstruction_vary_gamma_fix_bin_widths/'' @ suffix @ ''/''
     in
     and_then (call (EntropyAutoencoder env 4 h_in w_in bin_width_init gamma_scaling
                       path_to_nb_itvs_per_side_load False)) (\<lambda>entropy_ae.
     and_then (emit EncoderBuilt) (\<lambda>_.
     and_then (with_tf_Session
                (and_then (check (ae_initialization env entropy_ae path_to_restore)) (\<lambda>_.
                 and_then (call (encode_mini_batches env (numpy_expand_dims3 reference_uint8)
                                   entropy_ae path_to_restore 4)) (\<lambda>y_float32.
                 ret (y_float32, get_bin_widths env entropy_ae path_to_restore)))))
       (\<lambda>(y_float32, bin_widths).
     and_then (emit GraphReset) (\<lambda>_.
     and_then (call (IsolatedDecoder env nb_images h_in w_in False)) (\<lambda>isolated_decoder.
     and_then (emit DecoderBuilt) (\<lambda>_.
     let quantized_y_float32 = quantize_per_map y_float32 bin_widths in
     and_then (with_tf_Session
                (and_then (check (dec_initialization env isolated_decoder path_to_restore)) (\<lambda>_.
                 and_then (emit (DecoderFed quantized_y_float32)) (\<lambda>_.
                 call (node_reconstruction env isolated_decoder path_to_restore quantized_y_float32)))))
       (\<lambda>reconstruction_float32.
     and_then (emit GraphReset) (\<lambda>_.
     and_then (call (cast_bt601 env reconstruction_float32)) (\<lambda>reconstruction.
     and_then (call (numpy_squeeze3 reconstruction)) (\<lambda>reconstruction_uint8.
     for_range [0..<nb_images]
       (vary_gamma_image env reference_uint8 h_in w_in list_rotation positions_top_left
          quantized_y_float32 bin_widths path_to_storage reconstruction_uint8 i)))))))))))))"

text \<open>
  Lines 287-358. The assertion of line 288 comes before the matrices are allocated: when
  it fails, the function has no matrix yet and nothing has happened.
\<close>

definition vary_gamma_fix_bin_widths ::
  "('ae, 'dec, 'x) env \<Rightarrow> uint8 list list list \<Rightarrow> real \<Rightarrow> int list \<Rightarrow> real list \<Rightarrow> string
    \<Rightarrow> int list \<Rightarrow> int list list \<Rightarrow> (error + unit) \<times> 'x sweep_state" where
  "vary_gamma_fix_bin_widths env reference_uint8 bin_width_init idxs_training gammas_scaling
      path_to_checking_r list_rotation positions_top_left =
     (let nb_points = length gammas_scaling in
      if length idxs_training \<noteq> nb_points
      then (Inl AssertionError, \<lparr>rate = [], psnr = [], trace = []\<rparr>)
      else
        (let (nb_images, h_in, w_in) = shape3 reference_uint8 in
         for_range [0..<nb_points]
           (vary_gamma_point env reference_uint8 nb_images h_in w_in bin_width_init idxs_training
              gammas_scaling path_to_checking_r list_rotation positions_top_left)
           (initial_state nb_points nb_images)))"

section \<open>Reading a trace\<close>

text \<open>The cells of the two matrices, and the cells a trace assigns, in the order of assignment.\<close>

datatype cell = RateCell nat nat | PsnrCell nat nat

fun written :: "'x event \<Rightarrow> cell list" where
  "written (RateWritten i j v) = [RateCell i j]"
| "written (PsnrWritten i j v) = [PsnrCell i j]"
| "written _ = []"

definition cells_written :: "'x event list \<Rightarrow> cell list" where
  "cells_written evs = concat (map written evs)"

text \<open>
  The order in which a sweep that runs to its end assigns the cells: configuration by
  configuration, image by image, the rate of an image before its PSNR.
\<close>

definition schedule :: "nat \<Rightarrow> nat \<Rightarrow> cell list" where
  "schedule nb_points nb_images =
     concat (map (\<lambda>i. concat (map (\<lambda>j. [RateCell i j, PsnrCell i j]) [0..<nb_images])) [0..<nb_points])"

text \<open>The matrices a trace leaves when it starts from the matrices \<open>m\<close>.\<close>

fun rate_step :: "real list list \<Rightarrow> 'x event \<Rightarrow> real list list" where
  "rate_step m (RateWritten i j v) = m[i := (m ! i)[j := v]]"
| "rate_step m _ = m"

fun psnr_step :: "float64 list list \<Rightarrow> 'x event \<Rightarrow> float64 list list" where
  "psnr_step m (PsnrWritten i j v) = m[i := (m ! i)[j := v]]"
| "psnr_step m _ = m"

text \<open>The calls of the lossless coder and the tensors fed to the decoder, in order.\<close>

fun coder_call :: "'x event \<Rightarrow> (tensor3 \<times> real list \<times> string \<times> 'x) list" where
  "coder_call (CoderInvoked y b p x) = [(y, b, p, x)]"
| "coder_call _ = []"

definition coder_calls :: "'x event list \<Rightarrow> (tensor3 \<times> real list \<times> string \<times> 'x) list" where
  "coder_calls evs = concat (map coder_call evs)"

fun decoder_feed :: "'x event \<Rightarrow> tensor4 list" where
  "decoder_feed (DecoderFed t) = [t]"
| "decoder_feed _ = []"

definition decoder_feeds :: "'x event list \<Rightarrow> tensor4 list" where
  "decoder_feeds evs = concat (map decoder_feed evs)"





section \<open>The quantizer of the specification\<close>


section \<open>An example run\<close>

text \<open>
  A toy collaborator set with one latent channel: the encoder returns the samples as
  they are, the decoder returns what it is fed, the trained bin width is 1 and the mean
  is 0. The lossless coder answers 8 bits and the analytic estimate 2 bits per pixel.
  The cast clips to the range 16 to 235 of the comment of line 178 and rounds to the
  nearest sample.
\<close>

definition example_cast :: "real \<Rightarrow> uint8" where
  "example_cast x = word_of_int (round_half_away (max 16 (min 235 x)))"

definition example_env :: "(unit, unit, nat) env" where
  "example_env =
     \<lparr>float_to_str = (\<lambda>x. if x = 1 then ''1.0'' else ''2.0''),
      EntropyAutoencoder = (\<lambda>_ _ _ _ _ _ _. Inr ()),
      ae_initialization = (\<lambda>_ _. None),
      encode_mini_batches = (\<lambda>images _ _ _. Inr (map (map (map (map (\<lambda>v. real (unat v))))) images)),
      get_bin_widths = (\<lambda>_ _. [1]),
      IsolatedDecoder = (\<lambda>_ _ _ _. Inr ()),
      dec_initialization = (\<lambda>_ _. None),
      node_reconstruction = (\<lambda>_ _ y. Inr y),
      numpy_load = (\<lambda>_. Inr [0]),
      pickle_load = (\<lambda>_. Inr 0),
      rescale_compress_lossless_maps = (\<lambda>_ _ _ _. Inr 8),
      rate_3d = (\<lambda>_ _ _ _. Inr 2),
      cast_bt601 = (\<lambda>a. Inr (map (map (map (map example_cast))) a)),
      visualize_rotated_luminance = (\<lambda>_ _ _ _. None)\<rparr>"

text \<open>The same, with an encoder that rejects its input.\<close>

definition failing_encoder_env :: "(unit, unit, nat) env" where
  "failing_encoder_env =
     example_env\<lparr>encode_mini_batches := (\<lambda>_ _ _ _. Inl ShapeMismatchError)\<rparr>"

text \<open>The same, with a lossless coder that cannot code a tensor holding the sample 200.\<close>

definition failing_coder_env :: "(unit, unit, nat) env" where
  "failing_coder_env =
     example_env\<lparr>rescale_compress_lossless_maps :=
        (\<lambda>y _ _ _. if y = [[[200]]] then Inl UncodableChannelError else Inr 8)\<rparr>"

text \<open>The same, with the mean 3 for the one latent channel.\<close>

definition centered_env :: "(unit, unit, nat) env" where
  "centered_env = example_env\<lparr>numpy_load := (\<lambda>_. Inr [3])\<rparr>"

text \<open>The same, with the trained bin width 2.\<close>

definition coarse_env :: "(unit, unit, nat) env" where
  "coarse_env = centered_env\<lparr>get_bin_widths := (\<lambda>_ _. [2])\<rparr>"

section \<open>Predicates of the statements\<close>

text \<open>
  The matrices of a state are the zero matrices of \<^verbatim>\<open>numpy.zeros\<close> with the
  assignments of its trace applied in order.
\<close>

definition consistent :: "nat \<Rightarrow> nat \<Rightarrow> 'x sweep_state \<Rightarrow> bool" where
  "consistent nb_points nb_images s =
     (rate s = foldl rate_step (numpy_zeros nb_points nb_images) (trace s)
      \<and> psnr s = foldl psnr_step (map (map Finite) (numpy_zeros nb_points nb_images)) (trace s))"

text \<open>A statement keeps an invariant of the state, whether it returns or raises.\<close>

definition preserves :: "('x sweep_state \<Rightarrow> bool) \<Rightarrow> ('a, 'x) run \<Rightarrow> bool" where
  "preserves I m = (\<forall>s. I s \<longrightarrow> I (snd (m s)))"

definition is_prefix_of :: "'a list \<Rightarrow> 'a list \<Rightarrow> bool" where
  "is_prefix_of xs ys = (take (length xs) ys = xs)"

text \<open>
  A statement only appends to the trace, and what it appends, read through \<open>f\<close>, is
  the list \<open>plan\<close> when the statement returns and a prefix of \<open>plan\<close> when it raises.
\<close>

definition yields :: "('x event \<Rightarrow> 'b list) \<Rightarrow> 'b list \<Rightarrow> ('a, 'x) run \<Rightarrow> bool" where
  "yields f plan m =
     (\<forall>s. \<exists>d. trace (snd (m s)) = trace s @ d \<and> is_prefix_of (concat (map f d)) plan
           \<and> (\<not> isl (fst (m s)) \<longrightarrow> concat (map f d) = plan))"

text \<open>
  Both matrices have the shape (number of sweep points, number of images), and a cell
  that the trace has not assigned reads zero.
\<close>

definition unwritten_cells_zero :: "nat \<Rightarrow> nat \<Rightarrow> 'x sweep_state \<Rightarrow> bool" where
  "unwritten_cells_zero nb_points nb_images s =
     (map length (rate s) = replicate nb_points nb_images
      \<and> map length (psnr s) = replicate nb_points nb_images
      \<and> list_all (\<lambda>i. list_all (\<lambda>j.
            (RateCell i j \<in> set (cells_written (trace s)) \<or> rate s ! i ! j = 0)
            \<and> (PsnrCell i j \<in> set (cells_written (trace s)) \<or> psnr s ! i ! j = Finite 0))
          [0..<nb_images]) [0..<nb_points])"

text \<open>The matrix still holds the value an assignment of the trace stored.\<close>

definition holds_value :: "'x sweep_state \<Rightarrow> 'x event \<Rightarrow> bool" where
  "holds_value s e =
     (case e of
        RateWritten i j v \<Rightarrow> rate s ! i ! j = v
      | PsnrWritten i j v \<Rightarrow> psnr s ! i ! j = v
      | _ \<Rightarrow> True)"

text \<open>
  The cells assigned by a run are a prefix of the schedule, the whole schedule when the
  run returns, and every assigned cell holds the value that was stored in it.
\<close>

definition written_in_order :: "nat \<Rightarrow> nat \<Rightarrow> (error + unit) \<times> 'x sweep_state \<Rightarrow> bool" where
  "written_in_order nb_points nb_images outcome =
     (is_prefix_of (cells_written (trace (snd outcome))) (schedule nb_points nb_images)
      \<and> (\<not> isl (fst outcome) \<longrightarrow>
           cells_written (trace (snd outcome)) = schedule nb_points nb_images)
      \<and> list_all (holds_value (snd outcome)) (trace (snd outcome)))"





text \<open>
  The number of iterations of a loop that return, counted from the first one up to the
  end of the loop or to the first iteration that raises.
\<close>

fun completed :: "nat list \<Rightarrow> (nat \<Rightarrow> (unit, 'x) run) \<Rightarrow> 'x sweep_state \<Rightarrow> nat" where
  "completed [] body s = 0"
| "completed (i # rest) body s =
     (case body i s of (Inl e, s') \<Rightarrow> 0 | (Inr _, s') \<Rightarrow> Suc (completed rest body s'))"

text \<open>
  What a loop has assigned when it ends, where \<open>row i\<close> is the list of the cells of
  the iteration \<open>i\<close>. The first \<open>k\<close> iterations return, and all their cells are
  assigned, in order. Either these are all the iterations and the loop returns, or the
  next iteration raises: its outcome is the outcome of the loop, no later iteration
  runs, and the cells it has assigned are the first ones of its row.
\<close>

definition rows_in_full ::
  "(nat \<Rightarrow> cell list) \<Rightarrow> nat list \<Rightarrow> (nat \<Rightarrow> (unit, 'x) run) \<Rightarrow> 'x sweep_state \<Rightarrow> bool" where
  "rows_in_full row js body s =
     (let k = completed js body s;
          before = for_range (take k js) body s;
          outcome = for_range js body s;
          cells_before = cells_written (trace (snd before));
          cells_after = cells_written (trace (snd outcome))
      in k \<le> length js
         \<and> fst before = Inr ()
         \<and> cells_before = cells_written (trace s) @ concat (map row (take k js))
         \<and> (if k = length js then outcome = before
            else isl (fst outcome)
                 \<and> body (js ! k) (snd before) = outcome
                 \<and> take (length cells_before) cells_after = cells_before
                 \<and> is_prefix_of (drop (length cells_before) cells_after) (row (js ! k))))"


section \<open>Evaluation and proof rules\<close>

lemmas array_eval = shape3_def shape4_1_def shape4_2_def numpy_zeros_def numpy_expand_dims3_def
  numpy_tile4_def array_shape_def zip_with4_def broadcast_axis_def broadcast4_def
  array_sub_def array_add_def numpy_squeeze3_def
  getitem_def setitem2_def

lemmas path_eval = str_nat.simps str_int_def os_path_join_def suffix_of_def
  path_to_nb_itvs_per_side_load_of_def path_to_restore_of_def path_to_stats_of_def
  path_to_vis_of_def path_to_binary_probabilities_of_def reconstruction_paths_def

lemmas tools_eval = round_half_away_def quantize_value_def quantize_per_map_def
  squared_errors_def numpy_mean_def psnr_2d_def

lemmas run_eval = Let_def ret_def and_then_def call_def check_def emit_def with_tf_Session_def
  set_rate_def set_psnr_def initial_state_def

lemmas sweep_eval = fix_gamma_image_def fix_gamma_point_def fix_gamma_def
  vary_gamma_image_def vary_gamma_point_def vary_gamma_fix_bin_widths_def

lemmas env_eval = example_cast_def example_env_def failing_encoder_env_def
  failing_coder_env_def centered_env_def coarse_env_def

section \<open>Proof rules for runs\<close>

subsection \<open>Invariants\<close>

lemma preserves_ret: "preserves I (ret a)"
  by (simp add: preserves_def ret_def)

lemma preserves_call: "preserves I (call r)"
  by (simp add: preserves_def call_def)

lemma preserves_check: "preserves I (check r)"
  by (simp add: preserves_def check_def)

lemma preserves_and_then:
  assumes "preserves I m" and "\<And>a. preserves I (f a)"
  shows "preserves I (and_then m f)"
  using assms unfolding preserves_def and_then_def
  by (auto split: prod.splits sum.splits)

lemma preserves_if:
  assumes "c \<Longrightarrow> preserves I m" and "\<not> c \<Longrightarrow> preserves I n"
  shows "preserves I (if c then m else n)"
  using assms by simp

lemma preserves_case_prod:
  assumes "\<And>a b. preserves I (f a b)"
  shows "preserves I (case p of (a, b) \<Rightarrow> f a b)"
  using assms by (cases p) simp

lemma preserves_for_range:
  assumes "\<And>i. preserves I (body i)"
  shows "preserves I (for_range js body)"
proof -
  have "I s \<Longrightarrow> I (snd (for_range js body s))" for s
  proof (induction js arbitrary: s)
    case Nil
    then show ?case by simp
  next
    case (Cons j js)
    have step: "I (snd (body j s))"
      using assms Cons.prems by (simp add: preserves_def)
    show ?case
    proof (cases "body j s")
      case (Pair r s1)
      with step have "I s1" by simp
      with Pair Cons.IH [of s1] show ?thesis
        by (cases r) simp_all
    qed
  qed
  then show ?thesis by (simp add: preserves_def)
qed

lemma preserves_with_tf_Session:
  assumes "preserves I (emit SessionOpened)" and "preserves I (emit SessionClosed)"
    and "preserves I body"
  shows "preserves I (with_tf_Session body)"
  using assms unfolding preserves_def with_tf_Session_def emit_def
  by (auto split: prod.splits)

lemma preservesD: "preserves I m \<Longrightarrow> I s \<Longrightarrow> I (snd (m s))"
  by (simp add: preserves_def)

lemmas preserves_rules = preserves_ret preserves_call preserves_check preserves_and_then
  preserves_if preserves_case_prod preserves_for_range preserves_with_tf_Session

lemma preserves_fix_gamma_image:
  assumes "\<And>e. written e = [] \<Longrightarrow> preserves I (emit e)"
    and "\<And>v. preserves I (set_rate i j v)" and "\<And>v. preserves I (set_psnr i j v)"
  shows "preserves I (fix_gamma_image env reference_uint8 h_in w_in is_lossless idx_map_exception
           list_rotation positions_top_left y bin_widths_test path_p path_s reconstruction_uint8 i j)"
  unfolding fix_gamma_image_def
  by (intro preserves_rules assms) simp_all

lemma preserves_fix_gamma_point:
  assumes "\<And>e. written e = [] \<Longrightarrow> preserves I (emit e)"
    and "\<And>j v. preserves I (set_rate i j v)" and "\<And>j v. preserves I (set_psnr i j v)"
  shows "preserves I (fix_gamma_point env reference_uint8 nb_images h_in w_in is_lossless
           idx_map_exception list_rotation positions_top_left multipliers bin_widths
           centered_y_float32 tiled_map_mean isolated_decoder path_to_restore path_to_stats
           path_to_vis i)"
  unfolding fix_gamma_point_def Let_def
  by (intro preserves_rules preserves_fix_gamma_image assms) simp_all

lemma fix_gamma_invariant:
  assumes "\<And>e. written e = [] \<Longrightarrow> preserves I (emit e)"
    and "\<And>i j v. preserves I (set_rate i j v)" and "\<And>i j v. preserves I (set_psnr i j v)"
    and "I (initial_state (length multipliers) (fst (shape3 reference_uint8)))"
  shows "I (snd (fix_gamma env reference_uint8 bin_width_init multipliers idx_training
           gamma_scaling are_bin_widths_learned is_lossless path_to_checking_r list_rotation
           positions_top_left))"
  unfolding fix_gamma_def Let_def split_def
  by (rule preservesD [where I = I and s = "initial_state (length multipliers) (fst (shape3 reference_uint8))"])
    (intro preserves_rules preserves_fix_gamma_point assms, simp_all add: assms(4))


lemma preserves_vary_gamma_image:
  assumes "\<And>e. written e = [] \<Longrightarrow> preserves I (emit e)"
    and "\<And>v. preserves I (set_rate i j v)" and "\<And>v. preserves I (set_psnr i j v)"
  shows "preserves I (vary_gamma_image env reference_uint8 h_in w_in list_rotation
           positions_top_left y bin_widths path_s reconstruction_uint8 i j)"
  unfolding vary_gamma_image_def
  by (intro preserves_rules assms)

lemma preserves_vary_gamma_point:
  assumes "\<And>e. written e = [] \<Longrightarrow> preserves I (emit e)"
    and "\<And>j v. preserves I (set_rate i j v)" and "\<And>j v. preserves I (set_psnr i j v)"
  shows "preserves I (vary_gamma_point env reference_uint8 nb_images h_in w_in bin_width_init
           idxs_training gammas_scaling path_to_checking_r list_rotation positions_top_left i)"
  unfolding vary_gamma_point_def Let_def split_def
  by (intro preserves_rules preserves_vary_gamma_image assms) simp_all

lemma vary_gamma_invariant:
  assumes "\<And>e. written e = [] \<Longrightarrow> preserves I (emit e)"
    and "\<And>i j v. preserves I (set_rate i j v)" and "\<And>i j v. preserves I (set_psnr i j v)"
    and "I (initial_state (length gammas_scaling) (fst (shape3 reference_uint8)))"
    and "length idxs_training = length gammas_scaling"
  shows "I (snd (vary_gamma_fix_bin_widths env reference_uint8 bin_width_init idxs_training
           gammas_scaling path_to_checking_r list_rotation positions_top_left))"
proof -
  have "preserves I (for_range [0..<length gammas_scaling]
          (vary_gamma_point env reference_uint8 (fst (shape3 reference_uint8))
             (fst (snd (shape3 reference_uint8))) (snd (snd (shape3 reference_uint8)))
             bin_width_init idxs_training gammas_scaling path_to_checking_r list_rotation
             positions_top_left))"
    by (intro preserves_rules preserves_vary_gamma_point assms)
  from preservesD [OF this assms(4)] show ?thesis
    using assms(5) by (simp add: vary_gamma_fix_bin_widths_def Let_def split_def)
qed

subsection \<open>The matrices follow the trace\<close>

lemma rate_step_neutral: "written e = [] \<Longrightarrow> rate_step m e = m"
  by (cases e) simp_all

lemma psnr_step_neutral: "written e = [] \<Longrightarrow> psnr_step m e = m"
  by (cases e) simp_all

lemma consistent_emit: "written e = [] \<Longrightarrow> preserves (consistent n k) (emit e)"
  by (simp add: preserves_def consistent_def emit_def rate_step_neutral psnr_step_neutral)

lemma consistent_set_rate: "preserves (consistent n k) (set_rate i j v)"
  by (auto simp: preserves_def consistent_def set_rate_def setitem2_def split: sum.splits)

lemma consistent_set_psnr: "preserves (consistent n k) (set_psnr i j v)"
  by (auto simp: preserves_def consistent_def set_psnr_def setitem2_def split: sum.splits)

lemma consistent_initial: "consistent n k (initial_state n k)"
  by (simp add: consistent_def initial_state_def)

lemma fix_gamma_consistent:
  "consistent (length multipliers) (fst (shape3 reference_uint8))
     (snd (fix_gamma env reference_uint8 bin_width_init multipliers idx_training
           gamma_scaling are_bin_widths_learned is_lossless path_to_checking_r list_rotation
           positions_top_left))"
  by (rule fix_gamma_invariant [where I = "consistent (length multipliers) (fst (shape3 reference_uint8))"])
    (simp_all add: consistent_emit consistent_set_rate consistent_set_psnr consistent_initial)

lemma vary_gamma_consistent:
  "length idxs_training = length gammas_scaling \<Longrightarrow>
   consistent (length gammas_scaling) (fst (shape3 reference_uint8))
     (snd (vary_gamma_fix_bin_widths env reference_uint8 bin_width_init idxs_training
           gammas_scaling path_to_checking_r list_rotation positions_top_left))"
  by (rule vary_gamma_invariant [where I = "consistent (length gammas_scaling) (fst (shape3 reference_uint8))"])
    (simp_all add: consistent_emit consistent_set_rate consistent_set_psnr consistent_initial)

lemma cell_update:
  "m[i := (m ! i)[j := v]] ! i' ! j' =
     (if i' = i \<and> j' = j \<and> i < length m \<and> j < length (m ! i) then v else m ! i' ! j')"
proof (cases "i < length m")
  case True
  then show ?thesis
    by (cases "j < length (m ! i)") (auto simp: nth_list_update list_update_beyond not_less)
next
  case False
  then show ?thesis by (simp add: list_update_beyond not_less)
qed

lemma cell_update_shape: "map length (m[i := (m ! i)[j := v]]) = map length m"
  by (cases "i < length m") (simp_all add: map_update list_update_same_conv list_update_beyond)

lemma rate_step_shape: "map length (rate_step m e) = map length m"
  by (cases e) (simp_all add: cell_update_shape)

lemma psnr_step_shape: "map length (psnr_step m e) = map length m"
  by (cases e) (simp_all add: cell_update_shape)

lemma foldl_rate_step_shape: "map length (foldl rate_step m evs) = map length m"
  by (induction evs arbitrary: m) (simp_all add: rate_step_shape)

lemma foldl_psnr_step_shape: "map length (foldl psnr_step m evs) = map length m"
  by (induction evs arbitrary: m) (simp_all add: psnr_step_shape)

lemma cells_written_append [simp]: "cells_written (a @ b) = cells_written a @ cells_written b"
  by (simp add: cells_written_def)

lemma cells_written_Nil [simp]: "cells_written [] = []"
  by (simp add: cells_written_def)

lemma cells_written_single [simp]: "cells_written [e] = written e"
  by (simp add: cells_written_def)

lemma rate_unwritten:
  "RateCell i j \<notin> set (cells_written evs) \<Longrightarrow> foldl rate_step m evs ! i ! j = m ! i ! j"
proof (induction evs rule: rev_induct)
  case Nil
  then show ?case by simp
next
  case (snoc e evs)
  then show ?case by (cases e) (auto simp: cell_update)
qed

lemma psnr_unwritten:
  "PsnrCell i j \<notin> set (cells_written evs) \<Longrightarrow> foldl psnr_step m evs ! i ! j = m ! i ! j"
proof (induction evs rule: rev_induct)
  case Nil
  then show ?case by simp
next
  case (snoc e evs)
  then show ?case by (cases e) (auto simp: cell_update)
qed

lemma written_mem_cells:
  "RateWritten i j v \<in> set evs \<Longrightarrow> RateCell i j \<in> set (cells_written evs)"
  "PsnrWritten i j w \<in> set evs \<Longrightarrow> PsnrCell i j \<in> set (cells_written evs)"
  by (force simp: cells_written_def)+

lemma nth_nth_shape:
  assumes "map length a = map length b" and "i < length b"
  shows "length (a ! i) = length (b ! i)"
proof -
  have "length a = length b" using assms(1) by (rule map_eq_imp_length_eq)
  then have "i < length a" using assms(2) by simp
  then have "length (a ! i) = map length a ! i" by simp
  also have "\<dots> = map length b ! i" using assms(1) by simp
  also have "\<dots> = length (b ! i)" using assms(2) by simp
  finally show ?thesis .
qed

lemma rate_written_once:
  assumes "distinct (cells_written evs)" and "RateWritten i j v \<in> set evs"
    and "i < length m" and "j < length (m ! i)"
  shows "foldl rate_step m evs ! i ! j = v"
  using assms(1,2)
proof (induction evs rule: rev_induct)
  case Nil
  then show ?case by simp
next
  case (snoc e evs)
  let ?m = "foldl rate_step m evs"
  have shape: "map length ?m = map length m" by (rule foldl_rate_step_shape)
  then have len: "i < length ?m" "j < length (?m ! i)"
    using assms(3,4) nth_nth_shape [OF shape] map_eq_imp_length_eq [OF shape] by simp_all
  show ?case
  proof (cases "e = RateWritten i j v")
    case True
    then show ?thesis using len by (simp add: cell_update)
  next
    case False
    with snoc.prems have mem: "RateWritten i j v \<in> set evs" by simp
    then have "RateCell i j \<in> set (cells_written evs)" by (rule written_mem_cells)
    with snoc.prems(1) have "RateCell i j \<notin> set (written e)" by auto
    moreover have "foldl rate_step m evs ! i ! j = v"
      using snoc.IH snoc.prems(1) mem by simp
    ultimately show ?thesis by (cases e) (auto simp: cell_update)
  qed
qed

lemma psnr_written_once:
  assumes "distinct (cells_written evs)" and "PsnrWritten i j v \<in> set evs"
    and "i < length m" and "j < length (m ! i)"
  shows "foldl psnr_step m evs ! i ! j = v"
  using assms(1,2)
proof (induction evs rule: rev_induct)
  case Nil
  then show ?case by simp
next
  case (snoc e evs)
  let ?m = "foldl psnr_step m evs"
  have shape: "map length ?m = map length m" by (rule foldl_psnr_step_shape)
  then have len: "i < length ?m" "j < length (?m ! i)"
    using assms(3,4) nth_nth_shape [OF shape] map_eq_imp_length_eq [OF shape] by simp_all
  show ?case
  proof (cases "e = PsnrWritten i j v")
    case True
    then show ?thesis using len by (simp add: cell_update)
  next
    case False
    with snoc.prems have mem: "PsnrWritten i j v \<in> set evs" by simp
    then have "PsnrCell i j \<in> set (cells_written evs)" by (rule written_mem_cells)
    with snoc.prems(1) have "PsnrCell i j \<notin> set (written e)" by auto
    moreover have "foldl psnr_step m evs ! i ! j = v"
      using snoc.IH snoc.prems(1) mem by simp
    ultimately show ?thesis by (cases e) (auto simp: cell_update)
  qed
qed

subsection \<open>What a run appends to the trace\<close>

lemma is_prefix_of_iff: "is_prefix_of xs ys \<longleftrightarrow> (\<exists>zs. ys = xs @ zs)"
proof
  assume "is_prefix_of xs ys"
  then have "ys = xs @ drop (length xs) ys"
    unfolding is_prefix_of_def by (metis append_take_drop_id)
  then show "\<exists>zs. ys = xs @ zs" ..
next
  assume "\<exists>zs. ys = xs @ zs"
  then show "is_prefix_of xs ys" by (auto simp: is_prefix_of_def)
qed

lemma is_prefix_of_Nil [simp]: "is_prefix_of [] ys"
  by (simp add: is_prefix_of_def)

lemma is_prefix_of_refl [simp]: "is_prefix_of xs xs"
  by (simp add: is_prefix_of_def)

lemma is_prefix_of_append: "is_prefix_of xs ys \<Longrightarrow> is_prefix_of xs (ys @ zs)"
  by (auto simp: is_prefix_of_iff)

lemma is_prefix_of_same [simp]: "is_prefix_of (xs @ ys) (xs @ zs) \<longleftrightarrow> is_prefix_of ys zs"
  by (auto simp: is_prefix_of_iff)

lemma is_prefix_of_distinct: "is_prefix_of xs ys \<Longrightarrow> distinct ys \<Longrightarrow> distinct xs"
  by (auto simp: is_prefix_of_iff)

lemma is_prefix_of_set: "is_prefix_of xs ys \<Longrightarrow> set xs \<subseteq> set ys"
  by (auto simp: is_prefix_of_iff)

lemma yieldsI:
  assumes "\<And>s. \<exists>d. trace (snd (m s)) = trace s @ d \<and> is_prefix_of (concat (map f d)) plan
                \<and> (\<not> isl (fst (m s)) \<longrightarrow> concat (map f d) = plan)"
  shows "yields f plan m"
  using assms by (simp add: yields_def)

lemma yieldsD:
  assumes "yields f plan m"
  shows "\<exists>d. trace (snd (m s)) = trace s @ d \<and> is_prefix_of (concat (map f d)) plan
           \<and> (\<not> isl (fst (m s)) \<longrightarrow> concat (map f d) = plan)"
  using assms unfolding yields_def by blast

lemma yields_ret: "yields f [] (ret a)"
  by (simp add: yields_def ret_def)

lemma yields_call: "yields f [] (call r)"
  by (simp add: yields_def call_def)

lemma yields_check: "yields f [] (check r)"
  by (simp add: yields_def check_def)

lemma yields_emit: "yields f (f e) (emit e)"
  by (simp add: yields_def emit_def)

lemma yields_set_rate: "yields f (f (RateWritten i j v)) (set_rate i j v)"
  by (auto simp: yields_def set_rate_def split: sum.splits)

lemma yields_set_psnr: "yields f (f (PsnrWritten i j v)) (set_psnr i j v)"
  by (auto simp: yields_def set_psnr_def split: sum.splits)

lemma yields_and_then:
  assumes m: "yields f p m" and g: "\<And>a. yields f q (g a)"
  shows "yields f (p @ q) (and_then m g)"
proof (rule yieldsI)
  fix s
  obtain d1 where d1: "trace (snd (m s)) = trace s @ d1" "is_prefix_of (concat (map f d1)) p"
    "\<not> isl (fst (m s)) \<Longrightarrow> concat (map f d1) = p"
    using yieldsD [OF m, of s] by blast
  show "\<exists>d. trace (snd (and_then m g s)) = trace s @ d
           \<and> is_prefix_of (concat (map f d)) (p @ q)
           \<and> (\<not> isl (fst (and_then m g s)) \<longrightarrow> concat (map f d) = p @ q)"
  proof (cases "m s")
    case (Pair r s1)
    show ?thesis
    proof (cases r)
      case (Inl e)
      with Pair d1 show ?thesis
        by (intro exI [of _ d1]) (simp add: and_then_def is_prefix_of_append)
    next
      case (Inr a)
      obtain d2 where d2: "trace (snd (g a s1)) = trace s1 @ d2"
        "is_prefix_of (concat (map f d2)) q"
        "\<not> isl (fst (g a s1)) \<Longrightarrow> concat (map f d2) = q"
        using yieldsD [OF g, of a s1] by blast
      from Pair Inr d1 have p: "concat (map f d1) = p" and t1: "trace s1 = trace s @ d1"
        by simp_all
      from Pair Inr d2 p t1 show ?thesis
        by (intro exI [of _ "d1 @ d2"]) (simp add: and_then_def)
    qed
  qed
qed

lemma yields_skip_then:
  assumes "yields f [] m" and "\<And>a. yields f plan (g a)"
  shows "yields f plan (and_then m g)"
  using yields_and_then [OF assms] by simp




lemma yields_if:
  assumes "c \<Longrightarrow> yields f plan m" and "\<not> c \<Longrightarrow> yields f plan n"
  shows "yields f plan (if c then m else n)"
  using assms by simp

lemma yields_with_tf_Session:
  fixes body :: "('a, 'x) run"
  assumes "f SessionOpened = []" and "f SessionClosed = []" and body: "yields f plan body"
  shows "yields f plan (with_tf_Session body)"
proof (rule yieldsI)
  fix s :: "'x sweep_state"
  let ?s0 = "s\<lparr>trace := trace s @ [SessionOpened]\<rparr>"
  obtain d where d: "trace (snd (body ?s0)) = trace ?s0 @ d"
    "is_prefix_of (concat (map f d)) plan"
    "\<not> isl (fst (body ?s0)) \<Longrightarrow> concat (map f d) = plan"
    using yieldsD [OF body, of ?s0] by blast
  show "\<exists>d. trace (snd (with_tf_Session body s)) = trace s @ d
           \<and> is_prefix_of (concat (map f d)) plan
           \<and> (\<not> isl (fst (with_tf_Session body s)) \<longrightarrow> concat (map f d) = plan)"
    using d assms(1,2)
    by (intro exI [of _ "[SessionOpened] @ d @ [SessionClosed]"])
       (auto simp: with_tf_Session_def split: prod.splits)
qed

lemma yields_for_range:
  assumes "\<And>i. i \<in> set js \<Longrightarrow> yields f (g i) (body i)"
  shows "yields f (concat (map g js)) (for_range js body)"
  using assms
proof (induction js)
  case Nil
  then show ?case by (simp add: yields_def)
next
  case (Cons j js)
  have head: "yields f (g j) (body j)" using Cons.prems by simp
  have rest: "yields f (concat (map g js)) (for_range js body)"
    using Cons.IH Cons.prems by simp
  have "for_range (j # js) body = and_then (body j) (\<lambda>_. for_range js body)"
    by (rule ext) (simp add: and_then_def split: prod.splits sum.splits)
  with yields_and_then [OF head, of "concat (map g js)" "\<lambda>_. for_range js body"] rest
  show ?case by simp
qed

subsection \<open>The bodies of the image loops\<close>

lemma yields_fix_gamma_image:
  assumes rate: "\<And>v. f (RateWritten i j v) = R" and psnr: "\<And>v. f (PsnrWritten i j v) = P"
  shows "yields f
           ((if is_lossless
             then (case idx_map_exception of
                     None \<Rightarrow> []
                   | Some x \<Rightarrow> f (CoderInvoked (y ! j) bin_widths_test path_p x))
             else []) @ R @ P)
           (fix_gamma_image env reference_uint8 h_in w_in is_lossless idx_map_exception
              list_rotation positions_top_left y bin_widths_test path_p path_s
              reconstruction_uint8 i j)"
  unfolding yields_def fix_gamma_image_def
  by (auto simp: run_eval getitem_def setitem2_def rate psnr is_prefix_of_append
      split: sum.splits option.splits)

lemma yields_vary_gamma_image:
  assumes rate: "\<And>v. f (RateWritten i j v) = R" and psnr: "\<And>v. f (PsnrWritten i j v) = P"
  shows "yields f (R @ P)
           (vary_gamma_image env reference_uint8 h_in w_in list_rotation positions_top_left y
              bin_widths path_s reconstruction_uint8 i j)"
  unfolding yields_def vary_gamma_image_def
  by (auto simp: run_eval getitem_def setitem2_def rate psnr is_prefix_of_append
      split: sum.splits option.splits)


subsection \<open>The bodies of the configuration loops\<close>



subsection \<open>Running a statement\<close>

lemma call_thenE:
  assumes "and_then (call r) g s = (res, s')"
  obtains (raised) e where "r = Inl e" and "res = Inl e" and "s' = s"
    | (returned) a where "r = Inr a" and "g a s = (res, s')"
  using assms by (cases r) (auto simp: and_then_def call_def)

lemma check_thenE:
  assumes "and_then (check r) g s = (res, s')"
  obtains (raised) e where "r = Some e" and "res = Inl e" and "s' = s"
    | (returned) "r = None" and "g () s = (res, s')"
  using assms by (cases r) (auto simp: and_then_def check_def)

lemma emit_thenE:
  assumes "and_then (emit e) g s = (res, s')"
  obtains "g () (s\<lparr>trace := trace s @ [e]\<rparr>) = (res, s')"
  using assms by (auto simp: and_then_def emit_def)

lemma with_tf_Session_thenE:
  assumes "and_then (with_tf_Session body) g s = (res, s')"
  obtains (raised) e s1 where "body (s\<lparr>trace := trace s @ [SessionOpened]\<rparr>) = (Inl e, s1)"
      and "res = Inl e" and "s' = s1\<lparr>trace := trace s1 @ [SessionClosed]\<rparr>"
    | (returned) a s1 where "body (s\<lparr>trace := trace s @ [SessionOpened]\<rparr>) = (Inr a, s1)"
      and "g a (s1\<lparr>trace := trace s1 @ [SessionClosed]\<rparr>) = (res, s')"
proof (cases "body (s\<lparr>trace := trace s @ [SessionOpened]\<rparr>)")
  case (Pair r1 s1)
  show ?thesis
  proof (cases r1)
    case (Inl e)
    with Pair assms show ?thesis
      by (intro raised [of e s1]) (simp_all add: and_then_def with_tf_Session_def)
  next
    case (Inr a)
    with Pair assms show ?thesis
      by (intro returned [of a s1]) (simp_all add: and_then_def with_tf_Session_def)
  qed
qed

lemma with_tf_SessionE:
  assumes "with_tf_Session body s = (res, s')"
  obtains s1 where "body (s\<lparr>trace := trace s @ [SessionOpened]\<rparr>) = (res, s1)"
    and "s' = s1\<lparr>trace := trace s1 @ [SessionClosed]\<rparr>"
  using assms by (auto simp: with_tf_Session_def split: prod.splits)

text \<open>
  The block \<^verbatim>\<open>with tf.Session() as sess\<close> of lines 132-141 and 310-319: restore the
  autoencoder, encode the images, read the bin widths.
\<close>

lemma encode_block:
  "with_tf_Session
     (and_then (check (ae_initialization env entropy_ae path_to_restore)) (\<lambda>_.
      and_then (call (encode_mini_batches env images entropy_ae path_to_restore 4)) (\<lambda>y_float32.
      ret (y_float32, get_bin_widths env entropy_ae path_to_restore)))) s
   = ((case ae_initialization env entropy_ae path_to_restore of
         Some e \<Rightarrow> Inl e
       | None \<Rightarrow>
           (case encode_mini_batches env images entropy_ae path_to_restore 4 of
              Inl e \<Rightarrow> Inl e
            | Inr y_float32 \<Rightarrow> Inr (y_float32, get_bin_widths env entropy_ae path_to_restore))),
      s\<lparr>trace := trace s @ [SessionOpened, SessionClosed]\<rparr>)"
  by (simp add: run_eval split: option.splits sum.splits)


lemma encode_block_thenE:
  assumes "and_then
     (with_tf_Session
       (and_then (check (ae_initialization env entropy_ae path_to_restore)) (\<lambda>_.
        and_then (call (encode_mini_batches env images entropy_ae path_to_restore 4)) (\<lambda>y_float32.
        ret (y_float32, get_bin_widths env entropy_ae path_to_restore))))) g s = (res, s')"
  obtains (raised) e where "res = Inl e"
      and "s' = s\<lparr>trace := trace s @ [SessionOpened, SessionClosed]\<rparr>"
    | (returned) y_float32 where "ae_initialization env entropy_ae path_to_restore = None"
      and "encode_mini_batches env images entropy_ae path_to_restore 4 = Inr y_float32"
      and "g (y_float32, get_bin_widths env entropy_ae path_to_restore)
             (s\<lparr>trace := trace s @ [SessionOpened, SessionClosed]\<rparr>) = (res, s')"
  using assms unfolding and_then_def [of "with_tf_Session _"] encode_block
  by (auto split: option.splits sum.splits)

lemma load_exception_thenE:
  assumes "and_then (if c then and_then (call r) (\<lambda>x. ret (Some x)) else ret None) g s = (res, s')"
  obtains (raised) e where "res = Inl e" and "s' = s"
    | (returned) x where "if c then \<exists>v. r = Inr v \<and> x = Some v else x = None"
      and "g x s = (res, s')"
  using assms by (cases c; cases r) (auto simp: and_then_def call_def ret_def)

subsection \<open>The outcomes of the sweep with one autoencoder\<close>

lemma fix_gamma_outcome:
  fixes env :: "('ae, 'dec, 'x) env" and reference_uint8 :: "uint8 list list list"
    and multipliers :: "real list" and bin_width_init gamma_scaling :: real
    and are_bin_widths_learned :: bool and idx_training :: int
  defines "nb_points \<equiv> length multipliers"
    and "nb_images \<equiv> fst (shape3 reference_uint8)"
    and "h_in \<equiv> fst (snd (shape3 reference_uint8))"
    and "w_in \<equiv> snd (snd (shape3 reference_uint8))"
    and "suffix \<equiv> suffix_of env are_bin_widths_learned bin_width_init gamma_scaling"
  defines "path_to_restore \<equiv> path_to_restore_of suffix idx_training"
    and "path_to_stats \<equiv> path_to_stats_of suffix idx_training"
  assumes run: "fix_gamma env reference_uint8 bin_width_init multipliers idx_training
      gamma_scaling are_bin_widths_learned is_lossless path_to_checking_r list_rotation
      positions_top_left = (r, s')"
  obtains (early) e t where "r = Inl e"
      and "s' = (initial_state nb_points nb_images)\<lparr>trace := t\<rparr>"
      and "t \<in> set [[], [EncoderBuilt, SessionOpened, SessionClosed],
                 [EncoderBuilt, SessionOpened, SessionClosed, GraphReset],
                 [EncoderBuilt, SessionOpened, SessionClosed, GraphReset, DecoderBuilt],
                 [EncoderBuilt, SessionOpened, SessionClosed, GraphReset, DecoderBuilt,
                  SessionOpened, SessionClosed]]"
    | (loop) entropy_ae y_float32 isolated_decoder map_mean idx_map_exception centered_y_float32 s1
      where "EntropyAutoencoder env 4 h_in w_in bin_width_init gamma_scaling
               (path_to_nb_itvs_per_side_load_of suffix idx_training) are_bin_widths_learned
               = Inr entropy_ae"
      and "encode_mini_batches env (numpy_expand_dims3 reference_uint8) entropy_ae
               path_to_restore 4 = Inr y_float32"
      and "numpy_load env (os_path_join path_to_stats ''map_mean.npy'') = Inr map_mean"
      and "if is_lossless
           then \<exists>x. pickle_load env (os_path_join path_to_stats ''idx_map_exception.pkl'') = Inr x
                   \<and> idx_map_exception = Some x
           else idx_map_exception = None"
      and "array_sub y_float32
                (numpy_tile4 map_mean nb_images (shape4_1 y_float32) (shape4_2 y_float32))
               = Inr centered_y_float32"
      and "for_range [0..<nb_points]
                (fix_gamma_point env reference_uint8 nb_images h_in w_in is_lossless
                   idx_map_exception list_rotation positions_top_left multipliers
                   (get_bin_widths env entropy_ae path_to_restore) centered_y_float32
                   (numpy_tile4 map_mean nb_images (shape4_1 y_float32) (shape4_2 y_float32))
                   isolated_decoder path_to_restore path_to_stats
                   (path_to_vis_of path_to_checking_r suffix is_lossless))
                ((initial_state nb_points nb_images)\<lparr>trace :=
                   [EncoderBuilt, SessionOpened, SessionClosed, GraphReset, DecoderBuilt,
                    SessionOpened]\<rparr>) = (r, s1)"
      and "s' = s1\<lparr>trace := trace s1 @
                   (if isl r then [SessionClosed] else [SessionClosed, GraphReset])\<rparr>"
proof -
  note defs = nb_points_def nb_images_def h_in_def w_in_def suffix_def path_to_restore_def
    path_to_stats_def
  note early = early [unfolded defs]
  note loop = loop [unfolded defs]
  show thesis
  using run
  unfolding fix_gamma_def Let_def split_def
  apply -
  apply (erule call_thenE)
   apply (rule early [where t = "[]"]; simp add: initial_state_def)
  apply (erule emit_thenE)
  apply (erule encode_block_thenE)
   apply (rule early [where t = "[EncoderBuilt, SessionOpened, SessionClosed]"];
          simp add: initial_state_def)
  apply (erule emit_thenE)
  apply (erule call_thenE)
   apply (rule early [where t = "[EncoderBuilt, SessionOpened, SessionClosed, GraphReset]"];
          simp add: initial_state_def)
  apply (erule emit_thenE)
  apply (erule call_thenE)
   apply (rule early [where t = "[EncoderBuilt, SessionOpened, SessionClosed, GraphReset, DecoderBuilt]"];
          simp add: initial_state_def)
  apply (erule load_exception_thenE)
   apply (rule early [where t = "[EncoderBuilt, SessionOpened, SessionClosed, GraphReset, DecoderBuilt]"];
          simp add: initial_state_def)
  apply (erule call_thenE)
   apply (rule early [where t = "[EncoderBuilt, SessionOpened, SessionClosed, GraphReset, DecoderBuilt]"];
          simp add: initial_state_def)
  apply (erule with_tf_Session_thenE)
   apply (erule check_thenE)
    apply (rule early [where t = "[EncoderBuilt, SessionOpened, SessionClosed, GraphReset, DecoderBuilt, SessionOpened, SessionClosed]"];
          simp add: initial_state_def)
   apply (rule loop; (assumption | simp add: initial_state_def))
  apply (erule check_thenE)
   apply simp
  apply (clarsimp simp: emit_def)
  apply (rule loop; (assumption | simp add: initial_state_def))
  done
qed

subsection \<open>The schedule of the cells\<close>

lemma set_row:
  "set (concat (map (\<lambda>j. [RateCell i j, PsnrCell i j]) [0..<m])) =
     {c. \<exists>j<m. c = RateCell i j \<or> c = PsnrCell i j}"
  by auto

lemma distinct_row: "distinct (concat (map (\<lambda>j. [RateCell i j, PsnrCell i j]) [0..<m]))"
  by (induction m) (auto simp: set_row)

lemma set_schedule:
  "set (schedule n m) = {c. \<exists>i<n. \<exists>j<m. c = RateCell i j \<or> c = PsnrCell i j}"
  unfolding schedule_def by auto

lemma schedule_Suc:
  "schedule (Suc n) m = schedule n m @ concat (map (\<lambda>j. [RateCell n j, PsnrCell n j]) [0..<m])"
  by (simp add: schedule_def)

lemma distinct_schedule: "distinct (schedule n m)"
proof (induction n)
  case 0
  then show ?case by (simp add: schedule_def)
next
  case (Suc n)
  have "set (schedule n m) \<inter> set (concat (map (\<lambda>j. [RateCell n j, PsnrCell n j]) [0..<m])) = {}"
    unfolding set_schedule set_row by auto
  with Suc distinct_row [of n m] show ?case
    by (simp add: schedule_Suc)
qed

lemma yields_emit_neutral: "f e = [] \<Longrightarrow> yields f [] (emit e)"
  using yields_emit [of f e] by simp

lemma yields_with_tf_Session_neutral:
  "f SessionOpened = [] \<Longrightarrow> f SessionClosed = [] \<Longrightarrow> yields f [] body \<Longrightarrow>
   yields f [] (with_tf_Session body)"
  by (rule yields_with_tf_Session)

lemmas yields_neutral = yields_skip_then yields_call yields_check yields_ret yields_emit_neutral
  yields_with_tf_Session_neutral yields_if

lemma yields_written_fix_gamma_image:
  "yields written [RateCell i j, PsnrCell i j]
     (fix_gamma_image env reference_uint8 h_in w_in is_lossless idx_map_exception
        list_rotation positions_top_left y bin_widths_test path_p path_s reconstruction_uint8 i j)"
proof -
  have "(if is_lossless
         then (case idx_map_exception of
                 None \<Rightarrow> []
               | Some x \<Rightarrow> written (CoderInvoked (y ! j) bin_widths_test path_p x))
         else []) @ [RateCell i j] @ [PsnrCell i j] = [RateCell i j, PsnrCell i j]"
    by (simp split: option.splits)
  then show ?thesis
    using yields_fix_gamma_image [where f = written and R = "[RateCell i j]"
        and P = "[PsnrCell i j]" and i = i and j = j and is_lossless = is_lossless
        and idx_map_exception = idx_map_exception and y = y
        and bin_widths_test = bin_widths_test and path_p = path_p and env = env
        and ?reference_uint8.0 = reference_uint8 and h_in = h_in and w_in = w_in
        and list_rotation = list_rotation and positions_top_left = positions_top_left
        and path_s = path_s and ?reconstruction_uint8.0 = reconstruction_uint8]
    by simp
qed

lemma yields_written_vary_gamma_image:
  "yields written [RateCell i j, PsnrCell i j]
     (vary_gamma_image env reference_uint8 h_in w_in list_rotation positions_top_left y
        bin_widths path_s reconstruction_uint8 i j)"
  using yields_vary_gamma_image [where f = written and R = "[RateCell i j]"
      and P = "[PsnrCell i j]" and i = i and j = j and y = y and bin_widths = bin_widths
      and env = env and ?reference_uint8.0 = reference_uint8 and h_in = h_in and w_in = w_in
      and list_rotation = list_rotation and positions_top_left = positions_top_left
      and path_s = path_s and ?reconstruction_uint8.0 = reconstruction_uint8]
  by simp

lemma yields_written_fix_gamma_point:
  "yields written (concat (map (\<lambda>j. [RateCell i j, PsnrCell i j]) [0..<nb_images]))
     (fix_gamma_point env reference_uint8 nb_images h_in w_in is_lossless idx_map_exception
        list_rotation positions_top_left multipliers bin_widths centered_y_float32
        tiled_map_mean isolated_decoder path_to_restore path_to_stats path_to_vis i)"
  unfolding fix_gamma_point_def Let_def
  by (intro yields_neutral yields_for_range yields_written_fix_gamma_image) simp_all

lemma yields_written_vary_gamma_point:
  "yields written (concat (map (\<lambda>j. [RateCell i j, PsnrCell i j]) [0..<nb_images]))
     (vary_gamma_point env reference_uint8 nb_images h_in w_in bin_width_init idxs_training
        gammas_scaling path_to_checking_r list_rotation positions_top_left i)"
  unfolding vary_gamma_point_def Let_def split_def
  by (intro yields_neutral yields_for_range yields_written_vary_gamma_image) simp_all

subsection \<open>The cells a sweep assigns\<close>

lemma yields_run:
  assumes "yields f plan m" and "m s = (r, s')"
  shows "\<exists>d. trace s' = trace s @ d \<and> is_prefix_of (concat (map f d)) plan
           \<and> (\<not> isl r \<longrightarrow> concat (map f d) = plan)"
  using yieldsD [OF assms(1), of s] assms(2) by simp

lemma yields_written_fix_gamma_loop:
  "yields written (schedule nb_points nb_images)
     (for_range [0..<nb_points]
        (fix_gamma_point env reference_uint8 nb_images h_in w_in is_lossless idx_map_exception
           list_rotation positions_top_left multipliers bin_widths centered_y_float32
           tiled_map_mean isolated_decoder path_to_restore path_to_stats path_to_vis))"
  unfolding schedule_def
  by (intro yields_for_range yields_written_fix_gamma_point)

lemma yields_written_vary_gamma_loop:
  "yields written (schedule nb_points nb_images)
     (for_range [0..<nb_points]
        (vary_gamma_point env reference_uint8 nb_images h_in w_in bin_width_init idxs_training
           gammas_scaling path_to_checking_r list_rotation positions_top_left))"
  unfolding schedule_def
  by (intro yields_for_range yields_written_vary_gamma_point)

lemma fix_gamma_cells:
  assumes run: "fix_gamma env reference_uint8 bin_width_init multipliers idx_training
      gamma_scaling are_bin_widths_learned is_lossless path_to_checking_r list_rotation
      positions_top_left = (r, s')"
  shows "is_prefix_of (cells_written (trace s'))
           (schedule (length multipliers) (fst (shape3 reference_uint8)))"
    and "\<not> isl r \<Longrightarrow>
         cells_written (trace s') = schedule (length multipliers) (fst (shape3 reference_uint8))"
proof -
  let ?plan = "schedule (length multipliers) (fst (shape3 reference_uint8))"
  have "is_prefix_of (cells_written (trace s')) ?plan
        \<and> (\<not> isl r \<longrightarrow> cells_written (trace s') = ?plan)"
    using run
  proof (cases rule: fix_gamma_outcome)
    case (early e t)
    then show ?thesis by (auto simp: cells_written_def)
  next
    case (loop entropy_ae y_float32 isolated_decoder map_mean idx_map_exception
        centered_y_float32 s1)
    from yields_run [OF yields_written_fix_gamma_loop loop(6)]
    obtain d where d: "trace s1 = [EncoderBuilt, SessionOpened, SessionClosed, GraphReset,
        DecoderBuilt, SessionOpened] @ d"
      "is_prefix_of (concat (map written d)) ?plan"
      "\<not> isl r \<longrightarrow> concat (map written d) = ?plan"
      by (auto simp: initial_state_def)
    with loop(7) show ?thesis
      by (simp add: cells_written_def)
  qed
  then show "is_prefix_of (cells_written (trace s')) ?plan"
    and "\<not> isl r \<Longrightarrow> cells_written (trace s') = ?plan"
    by simp_all
qed


lemma vary_gamma_cells:
  assumes run: "vary_gamma_fix_bin_widths env reference_uint8 bin_width_init idxs_training
      gammas_scaling path_to_checking_r list_rotation positions_top_left = (r, s')"
  shows "is_prefix_of (cells_written (trace s'))
           (schedule (length gammas_scaling) (fst (shape3 reference_uint8)))"
    and "\<not> isl r \<Longrightarrow>
         cells_written (trace s') = schedule (length gammas_scaling) (fst (shape3 reference_uint8))"
proof -
  let ?plan = "schedule (length gammas_scaling) (fst (shape3 reference_uint8))"
  have "is_prefix_of (cells_written (trace s')) ?plan
        \<and> (\<not> isl r \<longrightarrow> cells_written (trace s') = ?plan)"
  proof (cases "length idxs_training = length gammas_scaling")
    case False
    with run show ?thesis
      by (auto simp: vary_gamma_fix_bin_widths_def)
  next
    case True
    with run have "for_range [0..<length gammas_scaling]
        (vary_gamma_point env reference_uint8 (fst (shape3 reference_uint8))
           (fst (snd (shape3 reference_uint8))) (snd (snd (shape3 reference_uint8)))
           bin_width_init idxs_training gammas_scaling path_to_checking_r list_rotation
           positions_top_left)
        (initial_state (length gammas_scaling) (fst (shape3 reference_uint8))) = (r, s')"
      by (simp add: vary_gamma_fix_bin_widths_def Let_def split_def)
    from yields_run [OF yields_written_vary_gamma_loop this]
    show ?thesis
      by (auto simp: initial_state_def cells_written_def)
  qed
  then show "is_prefix_of (cells_written (trace s')) ?plan"
    and "\<not> isl r \<Longrightarrow> cells_written (trace s') = ?plan"
    by simp_all
qed

lemma consistent_unwritten_cells_zero:
  assumes "consistent n m s"
  shows "unwritten_cells_zero n m s"
proof -
  have zeros: "numpy_zeros n m ! i ! j = 0" if "i < n" "j < m" for i j
    using that by (simp add: numpy_zeros_def)
  have "map length (numpy_zeros n m) = replicate n m"
    by (simp add: numpy_zeros_def)
  moreover have "map length (map (map Finite) (numpy_zeros n m)) = replicate n m"
    by (simp add: numpy_zeros_def)
  moreover have "RateCell i j \<in> set (cells_written (trace s)) \<or> rate s ! i ! j = 0"
    if "i < n" "j < m" for i j
    using assms rate_unwritten [of i j "trace s" "numpy_zeros n m"] zeros [OF that]
    by (auto simp: consistent_def)
  moreover have "PsnrCell i j \<in> set (cells_written (trace s)) \<or> psnr s ! i ! j = Finite 0"
    if "i < n" "j < m" for i j
    using assms psnr_unwritten [of i j "trace s" "map (map Finite) (numpy_zeros n m)"] that
    by (auto simp: consistent_def numpy_zeros_def)
  ultimately show ?thesis
    using assms
    by (simp add: unwritten_cells_zero_def consistent_def foldl_rate_step_shape
        foldl_psnr_step_shape list_all_iff)
qed

lemma consistent_holds_values:
  assumes "consistent n m s" and "is_prefix_of (cells_written (trace s)) (schedule n m)"
  shows "list_all (holds_value s) (trace s)"
proof -
  have dist: "distinct (cells_written (trace s))"
    using assms(2) distinct_schedule by (rule is_prefix_of_distinct)
  have sub: "set (cells_written (trace s)) \<subseteq> set (schedule n m)"
    using assms(2) by (rule is_prefix_of_set)
  have "holds_value s e" if "e \<in> set (trace s)" for e
  proof (cases e)
    case (RateWritten i j v)
    with that have "RateCell i j \<in> set (schedule n m)"
      using sub written_mem_cells(1) by blast
    then have "i < n" "j < m" by (auto simp: set_schedule)
    then have "i < length (numpy_zeros n m)" "j < length (numpy_zeros n m ! i)"
      by (simp_all add: numpy_zeros_def)
    from rate_written_once [OF dist _ this] that RateWritten assms(1)
    show ?thesis by (simp add: holds_value_def consistent_def)
  next
    case (PsnrWritten i j v)
    with that have "PsnrCell i j \<in> set (schedule n m)"
      using sub written_mem_cells(2) by blast
    then have "i < n" "j < m" by (auto simp: set_schedule)
    then have "i < length (map (map Finite) (numpy_zeros n m))"
      "j < length (map (map Finite) (numpy_zeros n m) ! i)"
      by (simp_all add: numpy_zeros_def)
    from psnr_written_once [OF dist _ this] that PsnrWritten assms(1)
    show ?thesis by (simp add: holds_value_def consistent_def)
  qed (simp_all add: holds_value_def)
  then show ?thesis by (simp add: list_all_iff)
qed

subsection \<open>The state of TensorFlow along a trace\<close>







subsection \<open>The outcomes of one configuration of the sweep over autoencoders\<close>

lemma vary_gamma_point_outcome:
  assumes run: "vary_gamma_point env reference_uint8 nb_images h_in w_in bin_width_init
      idxs_training gammas_scaling path_to_checking_r list_rotation positions_top_left i s
      = (r, s')"
  obtains (early) e t q where "r = Inl e" and "s' = s\<lparr>trace := trace s @ t\<rparr>"
      and "t \<in> set [[], [EncoderBuilt, SessionOpened, SessionClosed],
                 [EncoderBuilt, SessionOpened, SessionClosed, GraphReset],
                 [EncoderBuilt, SessionOpened, SessionClosed, GraphReset, DecoderBuilt],
                 [EncoderBuilt, SessionOpened, SessionClosed, GraphReset, DecoderBuilt,
                  SessionOpened, SessionClosed],
                 [EncoderBuilt, SessionOpened, SessionClosed, GraphReset, DecoderBuilt,
                  SessionOpened, DecoderFed q, SessionClosed],
                 [EncoderBuilt, SessionOpened, SessionClosed, GraphReset, DecoderBuilt,
                  SessionOpened, DecoderFed q, SessionClosed, GraphReset]]"
    | (loop) q bin_widths path_to_storage reconstruction_uint8
      where "for_range [0..<nb_images]
               (vary_gamma_image env reference_uint8 h_in w_in list_rotation positions_top_left
                  q bin_widths path_to_storage reconstruction_uint8 i)
               (s\<lparr>trace := trace s @
                  [EncoderBuilt, SessionOpened, SessionClosed, GraphReset, DecoderBuilt,
                   SessionOpened, DecoderFed q, SessionClosed, GraphReset]\<rparr>) = (r, s')"
  using run
  unfolding vary_gamma_point_def Let_def split_def
  apply -
  apply (erule call_thenE)
   apply (rule that(1) [where t = "[]"]; simp)
  apply (erule call_thenE)
   apply (rule that(1) [where t = "[]"]; simp)
  apply (erule call_thenE)
   apply (rule that(1) [where t = "[]"]; simp)
  apply (erule emit_thenE)
  apply (erule encode_block_thenE)
   apply (rule that(1) [where t = "[EncoderBuilt, SessionOpened, SessionClosed]"]; simp)
  apply (erule emit_thenE)
  apply (erule call_thenE)
   apply (rule that(1) [where t = "[EncoderBuilt, SessionOpened, SessionClosed, GraphReset]"]; simp)
  apply (erule emit_thenE)
  apply (erule with_tf_Session_thenE)
   apply (erule check_thenE)
    apply (rule that(1) [where t = "[EncoderBuilt, SessionOpened, SessionClosed, GraphReset,
             DecoderBuilt, SessionOpened, SessionClosed]"]; simp)
   apply (erule emit_thenE)
   apply (rule that(1) [where t = "[EncoderBuilt, SessionOpened, SessionClosed, GraphReset,
             DecoderBuilt, SessionOpened, DecoderFed _, SessionClosed]"]; auto simp: call_def)
  apply (erule check_thenE)
   apply simp
  apply (erule emit_thenE)
  apply (erule emit_thenE)
  apply (erule call_thenE)
   apply (rule that(1) [where t = "[EncoderBuilt, SessionOpened, SessionClosed, GraphReset,
             DecoderBuilt, SessionOpened, DecoderFed _, SessionClosed, GraphReset]"];
          auto simp: call_def)
  apply (erule call_thenE)
   apply (rule that(1) [where t = "[EncoderBuilt, SessionOpened, SessionClosed, GraphReset,
             DecoderBuilt, SessionOpened, DecoderFed _, SessionClosed, GraphReset]"];
          auto simp: call_def)
  apply (rule that(2))
  apply (auto simp: call_def)
  done

subsection \<open>The image loops leave TensorFlow alone\<close>







subsection \<open>The lifecycle of the models\<close>






subsection \<open>The iterations of a loop that return\<close>

lemma rows_in_full_raise:
  assumes "body i s = (Inl e, s1)" and "trace s1 = trace s @ d"
    and "is_prefix_of (cells_written d) (row i)"
  shows "rows_in_full row (i # js) body s"
proof -
  have k: "completed (i # js) body s = 0" using assms(1) by simp
  have out: "for_range (i # js) body s = (Inl e, s1)" using assms(1) by simp
  show ?thesis
    unfolding rows_in_full_def Let_def k out
    using assms by simp
qed

lemma rows_in_full_return:
  assumes b: "body i s = (Inr u, s1)"
    and row: "cells_written (trace s1) = cells_written (trace s) @ row i"
    and rest: "rows_in_full row js body s1"
  shows "rows_in_full row (i # js) body s"
proof -
  let ?k = "completed js body s1"
  have k: "completed (i # js) body s = Suc ?k" using b by simp
  have out: "for_range (i # js) body s = for_range js body s1" using b by simp
  have before: "for_range (take (Suc ?k) (i # js)) body s = for_range (take ?k js) body s1"
    using b by simp
  have nth: "(i # js) ! Suc ?k = js ! ?k" by simp
  have rows: "concat (map row (take (Suc ?k) (i # js))) = row i @ concat (map row (take ?k js))"
    by simp
  have len: "(Suc ?k = length (i # js)) = (?k = length js)" "(Suc ?k \<le> length (i # js)) = (?k \<le> length js)"
    by simp_all
  note R = rest [unfolded rows_in_full_def Let_def]
  note A = R [THEN conjunct1]
  note B = R [THEN conjunct2, THEN conjunct1]
  note C = R [THEN conjunct2, THEN conjunct2, THEN conjunct1]
  note F = R [THEN conjunct2, THEN conjunct2, THEN conjunct2]
  have third: "cells_written (trace (snd (for_range (take ?k js) body s1)))
      = cells_written (trace s) @ row i @ concat (map row (take ?k js))"
    unfolding C row by (simp only: append_assoc)
  show ?thesis
    unfolding rows_in_full_def Let_def k out before nth rows len
    by (intro conjI A B third F)
qed

lemma rows_in_full_loop:
  assumes body: "\<And>i. yields written (row i) (body i)"
  shows "rows_in_full row js body s"
proof (induction js arbitrary: s)
  case Nil
  show ?case by (simp add: rows_in_full_def)
next
  case (Cons i js)
  obtain r1 s1 where b: "body i s = (r1, s1)" by (cases "body i s")
  from yields_run [OF body b] obtain d where d: "trace s1 = trace s @ d"
    and pre: "is_prefix_of (cells_written d) (row i)"
    and all: "\<not> isl r1 \<Longrightarrow> cells_written d = row i"
    unfolding cells_written_def by blast
  show ?case
  proof (cases r1)
    case (Inl e)
    with b have "body i s = (Inl e, s1)" by simp
    then show ?thesis using d pre by (rule rows_in_full_raise)
  next
    case (Inr u)
    with all have row: "cells_written d = row i" by simp
    from b Inr have "body i s = (Inr u, s1)" by simp
    moreover have "cells_written (trace s1) = cells_written (trace s) @ row i"
      using d row by simp
    ultimately show ?thesis using Cons.IH [of s1] by (rule rows_in_full_return)
  qed
qed

subsection \<open>The outcomes of one configuration of the sweep with one autoencoder\<close>

lemma fix_gamma_point_outcome:
  fixes multipliers bin_widths :: "real list" and centered_y_float32 :: tensor4
  assumes run: "fix_gamma_point env reference_uint8 nb_images h_in w_in is_lossless
      idx_map_exception list_rotation positions_top_left multipliers bin_widths
      centered_y_float32 tiled_map_mean isolated_decoder path_to_restore path_to_stats
      path_to_vis i s = (r, s')"
  obtains (early) e t where "r = Inl e" and "s' = s\<lparr>trace := trace s @ t\<rparr>"
      and "cells_written t = []"
    | (loop) t reconstruction_float32 reconstruction reconstruction_uint8
      where "i < length multipliers"
      and "array_add (quantize_per_map centered_y_float32
               (map (\<lambda>b. multipliers ! i * b) bin_widths)) tiled_map_mean = Inr t"
      and "node_reconstruction env isolated_decoder path_to_restore t = Inr reconstruction_float32"
      and "cast_bt601 env reconstruction_float32 = Inr reconstruction"
      and "numpy_squeeze3 reconstruction = Inr reconstruction_uint8"
      and "for_range [0..<nb_images]
             (fix_gamma_image env reference_uint8 h_in w_in is_lossless idx_map_exception
                list_rotation positions_top_left
                (quantize_per_map centered_y_float32 (map (\<lambda>b. multipliers ! i * b) bin_widths))
                (map (\<lambda>b. multipliers ! i * b) bin_widths)
                (path_to_binary_probabilities_of path_to_stats (float_to_str env (multipliers ! i)))
                (path_to_vis @ ''multiplier_'' @ float_to_str env (multipliers ! i) @ ''/'')
                reconstruction_uint8 i)
             (s\<lparr>trace := trace s @ [DecoderFed t]\<rparr>) = (r, s')"
  using run
  unfolding fix_gamma_point_def Let_def
  apply -
  apply (erule call_thenE)
   apply (rule that(1) [where t = "[]"]; simp)
  apply (erule call_thenE)
   apply (rule that(1) [where t = "[]"]; simp)
  apply (erule emit_thenE)
  apply (erule call_thenE)
   apply (rule that(1) [where t = "[DecoderFed _]"]; simp)
  apply (erule call_thenE)
   apply (rule that(1) [where t = "[DecoderFed _]"]; simp)
  apply (erule call_thenE)
   apply (rule that(1) [where t = "[DecoderFed _]"]; simp)
  apply (rule that(2); (assumption | simp add: getitem_def split: if_splits))
  done

subsection \<open>Arithmetic against a tiled vector\<close>








subsection \<open>Arrays of the same shape\<close>






subsection \<open>The tensors fed to the decoder\<close>


lemma decoder_feeds_append [simp]:
  "decoder_feeds (xs @ ys) = decoder_feeds xs @ decoder_feeds ys"
  by (simp add: decoder_feeds_def)


subsection \<open>The tensors the sweep over autoencoders feeds\<close>




section \<open>The quantizer\<close>

lemma round_half_away_of_int: "round_half_away (of_int k) = k"
  unfolding round_half_away_def by (auto simp: floor_eq_iff ceiling_eq_iff)

lemma round_half_away_of_nat: "round_half_away (real n) = int n"
  using round_half_away_of_int [of "int n"] by simp

lemma quantize_value_idem:
  assumes "b \<noteq> 0"
  shows "quantize_value (quantize_value v b) b = quantize_value v b"
  using assms by (simp add: quantize_value_def round_half_away_of_int)

lemma map2_quantize_idem:
  "\<forall>b\<in>set bs. b \<noteq> 0 \<Longrightarrow>
   map2 quantize_value (map2 quantize_value px bs) bs = map2 quantize_value px bs"
proof (induction px arbitrary: bs)
  case Nil
  then show ?case by simp
next
  case (Cons x px)
  then show ?case by (cases bs) (simp_all add: quantize_value_idem)
qed

lemma quantize_per_map_idem:
  "\<forall>b\<in>set bs. b \<noteq> 0 \<Longrightarrow> quantize_per_map (quantize_per_map y bs) bs = quantize_per_map y bs"
  by (simp add: quantize_per_map_def map2_quantize_idem)

text \<open>
  C6. Quantization is idempotent. For a bin width \<open>b > 0\<close>, quantizing a quantized
  value again gives the same value; so does removing the mean from an off-centered
  quantized value, quantizing and adding the mean back; and so does
  \<^verbatim>\<open>quantize_per_map\<close> on a whole tensor whose bin widths are all positive.
\<close>

theorem quantize_idempotent:
  assumes "0 < b" and "\<forall>c\<in>set bin_widths. 0 < c"
  shows "quantize_value (quantize_value v b) b = quantize_value v b
       \<and> quantize_value ((quantize_value (v - m) b + m) - m) b + m = quantize_value (v - m) b + m
       \<and> quantize_per_map (quantize_per_map y bin_widths) bin_widths = quantize_per_map y bin_widths"
proof -
  have "b \<noteq> 0" using assms(1) by simp
  moreover have "\<forall>c\<in>set bin_widths. c \<noteq> 0" using assms(2) by auto
  ultimately show ?thesis
    by (simp add: quantize_value_idem quantize_per_map_idem)
qed

theorem quantize_idempotent_witness:
  "(0::real) < 2 \<and> list_all (\<lambda>c. 0 < c) [2, 1 :: real]
   \<and> quantize_value 3 2 = 4
   \<and> quantize_value (quantize_value 3 2) 2 = quantize_value 3 2
   \<and> quantize_value ((quantize_value (3 - 1) 2 + 1) - 1) 2 + 1 = quantize_value (3 - 1) 2 + 1
   \<and> quantize_per_map (quantize_per_map [[[[3, 5 / 2]]]] [2, 1]) [2, 1]
       = quantize_per_map [[[[3, 5 / 2]]]] [2, 1]"
proof -
  have pos: "(0::real) < 2" "\<forall>c\<in>set [2, 1 :: real]. 0 < c" by simp_all
  have three: "quantize_value 3 2 = 4"
    by (simp add: quantize_value_def round_half_away_def)
  show ?thesis
    using pos three
      quantize_idempotent [OF pos, of 3 1 "[[[[3, 5 / 2]]]]"]
      quantize_idempotent [OF pos, of 3 0 "[[[[3, 5 / 2]]]]"]
    by simp
qed

section \<open>The assertion of the sweep over autoencoders\<close>

text \<open>
  C4. When the number of training indices differs from the number of scaling
  coefficients, \<^verbatim>\<open>vary_gamma_fix_bin_widths\<close> fails with the assertion error of line
  288, and nothing has happened before: the trace is empty, so no model was built and
  no session opened, and no matrix was allocated.
\<close>

theorem vary_gamma_count_mismatch:
  "length idxs_training \<noteq> length gammas_scaling \<Longrightarrow>
   vary_gamma_fix_bin_widths env reference_uint8 bin_width_init idxs_training gammas_scaling
      path_to_checking_r list_rotation positions_top_left
     = (Inl AssertionError, \<lparr>rate = [], psnr = [], trace = []\<rparr>)"
  by (simp add: vary_gamma_fix_bin_widths_def)

theorem vary_gamma_count_mismatch_witness:
  "length [10, 10, 7 :: int] \<noteq> length [10000, 12000 :: real]
   \<and> vary_gamma_fix_bin_widths example_env [[[16]], [[200]]] 1 [10, 10, 7] [10000, 12000]
        ''r/'' [] []
      = (Inl AssertionError, \<lparr>rate = [], psnr = [], trace = []\<rparr>)"
proof -
  have mismatch: "length [10, 10, 7 :: int] \<noteq> length [10000, 12000 :: real]"
    by simp
  show ?thesis
    using mismatch vary_gamma_count_mismatch [OF mismatch] by simp
qed

section \<open>The result matrices\<close>

text \<open>
  C10. Both sweep functions allocate the rate and PSNR matrices as zero arrays of shape
  (number of sweep points, number of images) before any configuration is evaluated, and
  whatever happens afterwards, in the state a run ends with the matrices have that shape
  and every cell the run has not assigned reads 0. For the sweep over autoencoders this
  is when the assertion on the sizes passes; otherwise no matrix exists.
\<close>

theorem matrices_zero_where_unwritten:
  fixes env :: "('ae, 'dec, 'x) env"
  shows "rate (initial_state nb_points nb_images :: 'x sweep_state)
       = replicate nb_points (replicate nb_images 0)
   \<and> psnr (initial_state nb_points nb_images :: 'x sweep_state)
       = replicate nb_points (replicate nb_images (Finite 0))
   \<and> unwritten_cells_zero (length multipliers) (fst (shape3 reference_uint8))
        (snd (fix_gamma env reference_uint8 bin_width_init multipliers idx_training
                gamma_scaling are_bin_widths_learned is_lossless path_to_checking_r
                list_rotation positions_top_left))
   \<and> (length idxs_training = length gammas_scaling \<longrightarrow>
        unwritten_cells_zero (length gammas_scaling) (fst (shape3 reference_uint8))
          (snd (vary_gamma_fix_bin_widths env reference_uint8 bin_width_init idxs_training
                  gammas_scaling path_to_checking_r list_rotation positions_top_left)))"
  by (simp add: initial_state_def numpy_zeros_def consistent_unwritten_cells_zero
      fix_gamma_consistent vary_gamma_consistent)

text \<open>
  A run of the first sweep that fails in its first configuration, and a run of the
  second sweep with as many training indices as scaling coefficients.
\<close>

theorem matrices_zero_where_unwritten_witness:
  "length [10, 10 :: int] = length [1, 2 :: real]
   \<and> unwritten_cells_zero 2 2
        (snd (fix_gamma failing_coder_env [[[16]], [[200]]] 1 [1, 2] 10 1 False True ''r/'' [] []))
   \<and> rate (snd (fix_gamma failing_coder_env [[[16]], [[200]]] 1 [1, 2] 10 1 False True ''r/'' [] []))
        = [[8, 0], [0, 0]]
   \<and> unwritten_cells_zero 2 2
        (snd (vary_gamma_fix_bin_widths example_env [[[16]], [[200]]] 1 [10, 10] [1, 2] ''r/'' [] []))"
proof -
  have same: "length [10, 10 :: int] = length [1, 2 :: real]"
    by simp
  have run: "rate (snd (fix_gamma failing_coder_env [[[16]], [[200]]] 1 [1, 2] 10 1 False True ''r/'' [] []))
        = [[8, 0], [0, 0]]"
    by (simp add: env_eval array_eval path_eval tools_eval run_eval sweep_eval)
  have a: "unwritten_cells_zero 2 2
        (snd (fix_gamma failing_coder_env [[[16]], [[200]]] 1 [1, 2] 10 1 False True ''r/'' [] []))"
    using matrices_zero_where_unwritten [of 2 2 "[1, 2]" "[[[16]], [[200]]]" failing_coder_env
        1 10 1 False True "''r/''" "[]" "[]" "[10, 10]" "[1, 2]", THEN conjunct2, THEN conjunct2]
    by (simp add: shape3_def numeral_2_eq_2)
  have b: "unwritten_cells_zero 2 2
        (snd (vary_gamma_fix_bin_widths example_env [[[16]], [[200]]] 1 [10, 10] [1, 2] ''r/'' [] []))"
    using same matrices_zero_where_unwritten [of 2 2 "[1, 2]" "[[[16]], [[200]]]" example_env
        1 10 1 False True "''r/''" "[]" "[]" "[10, 10]" "[1, 2]", THEN conjunct2, THEN conjunct2]
    by (simp add: shape3_def numeral_2_eq_2)
  show ?thesis
    using same run a b by simp
qed

text \<open>
  C1, as amended. In both sweeps the cells are assigned in a fixed order, configuration
  by configuration and within a configuration image by image, the rate of an image before
  its PSNR, and a configuration is not atomic. The statement has ten parts.

  \<^item> Parts 1 and 2, the two sweeps: the cells a run has assigned are the first cells in
  that order, all the cells when the run returns, and every assigned cell holds the value
  stored in it.
  \<^item> Parts 3 and 4, the sweep is its loop over the configurations: \<^verbatim>\<open>fix_gamma\<close> either
  raises before the loop, with no cell assigned, or its outcome and its matrices are the
  ones of the loop; \<^verbatim>\<open>vary_gamma_fix_bin_widths\<close> is the loop when the assertion of
  line 288 passes.
  \<^item> Parts 5 and 6, the loops over the configurations, from any state: the configurations
  that return before the first one that raises have all their cells assigned; when a
  configuration raises, its outcome is the outcome of the loop, so no later configuration
  runs, and the cells it has assigned are the first cells of its row.
  \<^item> Parts 7 and 8, a configuration is its loop over the images: it either raises
  before the first image, with no cell assigned and the matrices as they were, or its
  outcome is the one of the loop over the images.
  \<^item> Parts 9 and 10, the loops over the images, from any state: the images whose body
  returns before the first one that raises have both their cells assigned; when the body
  of an image raises, its outcome is the outcome of the loop, and the cells it has
  assigned are none, the rate, or the rate and the PSNR of that image.
\<close>

theorem sweeps_write_in_order:
  fixes env :: "('ae, 'dec, 'x) env" and s :: "'x sweep_state"
    and reference_uint8 :: "uint8 list list list"
    and multipliers bin_widths gammas_scaling :: "real list"
    and centered_y_float32 quantized_y_float32 tiled_map_mean :: tensor4
  shows
  "written_in_order (length multipliers) (fst (shape3 reference_uint8))
     (fix_gamma env reference_uint8 bin_width_init multipliers idx_training gamma_scaling
        are_bin_widths_learned is_lossless path_to_checking_r list_rotation positions_top_left)
   \<and> written_in_order (length gammas_scaling) (fst (shape3 reference_uint8))
       (vary_gamma_fix_bin_widths env reference_uint8 bin_width_init idxs_training
          gammas_scaling path_to_checking_r list_rotation positions_top_left)
   \<and> (case fix_gamma env reference_uint8 bin_width_init multipliers idx_training gamma_scaling
             are_bin_widths_learned is_lossless path_to_checking_r list_rotation
             positions_top_left of
        (r, s') \<Rightarrow>
          (isl r \<and> cells_written (trace s') = [])
          \<or> (\<exists>entropy_ae (y_float32 :: tensor4) isolated_decoder map_mean idx_map_exception
                centered s1.
                for_range [0..<length multipliers]
                  (fix_gamma_point env reference_uint8 (fst (shape3 reference_uint8))
                     (fst (snd (shape3 reference_uint8))) (snd (snd (shape3 reference_uint8)))
                     is_lossless idx_map_exception list_rotation positions_top_left multipliers
                     (get_bin_widths env entropy_ae
                        (path_to_restore_of
                           (suffix_of env are_bin_widths_learned bin_width_init gamma_scaling)
                           idx_training))
                     centered
                     (numpy_tile4 map_mean (fst (shape3 reference_uint8)) (shape4_1 y_float32)
                        (shape4_2 y_float32))
                     isolated_decoder
                     (path_to_restore_of
                        (suffix_of env are_bin_widths_learned bin_width_init gamma_scaling)
                        idx_training)
                     (path_to_stats_of
                        (suffix_of env are_bin_widths_learned bin_width_init gamma_scaling)
                        idx_training)
                     (path_to_vis_of path_to_checking_r
                        (suffix_of env are_bin_widths_learned bin_width_init gamma_scaling)
                        is_lossless))
                  ((initial_state (length multipliers) (fst (shape3 reference_uint8)))
                     \<lparr>trace := [EncoderBuilt, SessionOpened, SessionClosed, GraphReset,
                                 DecoderBuilt, SessionOpened]\<rparr>) = (r, s1)
                \<and> cells_written (trace s') = cells_written (trace s1)
                \<and> rate s' = rate s1 \<and> psnr s' = psnr s1))
   \<and> (length idxs_training = length gammas_scaling \<longrightarrow>
        vary_gamma_fix_bin_widths env reference_uint8 bin_width_init idxs_training
          gammas_scaling path_to_checking_r list_rotation positions_top_left
        = for_range [0..<length gammas_scaling]
            (vary_gamma_point env reference_uint8 (fst (shape3 reference_uint8))
               (fst (snd (shape3 reference_uint8))) (snd (snd (shape3 reference_uint8)))
               bin_width_init idxs_training gammas_scaling path_to_checking_r list_rotation
               positions_top_left)
            (initial_state (length gammas_scaling) (fst (shape3 reference_uint8))))
   \<and> rows_in_full (\<lambda>i. concat (map (\<lambda>j. [RateCell i j, PsnrCell i j]) [0..<nb_images]))
        [0..<nb_points]
        (fix_gamma_point env reference_uint8 nb_images h_in w_in is_lossless idx_map_exception
           list_rotation positions_top_left multipliers bin_widths centered_y_float32
           tiled_map_mean isolated_decoder path_to_restore path_to_stats path_to_vis) s
   \<and> rows_in_full (\<lambda>i. concat (map (\<lambda>j. [RateCell i j, PsnrCell i j]) [0..<nb_images]))
        [0..<nb_points]
        (vary_gamma_point env reference_uint8 nb_images h_in w_in bin_width_init idxs_training
           gammas_scaling path_to_checking_r list_rotation positions_top_left) s
   \<and> (case fix_gamma_point env reference_uint8 nb_images h_in w_in is_lossless
             idx_map_exception list_rotation positions_top_left multipliers bin_widths
             centered_y_float32 tiled_map_mean isolated_decoder path_to_restore path_to_stats
             path_to_vis i s of
        (r, s') \<Rightarrow>
          (isl r \<and> cells_written (trace s') = cells_written (trace s)
             \<and> rate s' = rate s \<and> psnr s' = psnr s)
          \<or> (\<exists>t reconstruction_uint8.
                for_range [0..<nb_images]
                  (fix_gamma_image env reference_uint8 h_in w_in is_lossless idx_map_exception
                     list_rotation positions_top_left
                     (quantize_per_map centered_y_float32
                        (map (\<lambda>b. multipliers ! i * b) bin_widths))
                     (map (\<lambda>b. multipliers ! i * b) bin_widths)
                     (path_to_binary_probabilities_of path_to_stats
                        (float_to_str env (multipliers ! i)))
                     (path_to_vis @ ''multiplier_'' @ float_to_str env (multipliers ! i) @ ''/'')
                     reconstruction_uint8 i)
                  (s\<lparr>trace := trace s @ [DecoderFed t]\<rparr>) = (r, s')))
   \<and> (case vary_gamma_point env reference_uint8 nb_images h_in w_in bin_width_init
             idxs_training gammas_scaling path_to_checking_r list_rotation positions_top_left
             i s of
        (r, s') \<Rightarrow>
          (isl r \<and> cells_written (trace s') = cells_written (trace s)
             \<and> rate s' = rate s \<and> psnr s' = psnr s)
          \<or> (\<exists>q widths path_to_storage reconstruction_uint8.
                for_range [0..<nb_images]
                  (vary_gamma_image env reference_uint8 h_in w_in list_rotation
                     positions_top_left q widths path_to_storage reconstruction_uint8 i)
                  (s\<lparr>trace := trace s @
                      [EncoderBuilt, SessionOpened, SessionClosed, GraphReset, DecoderBuilt,
                       SessionOpened, DecoderFed q, SessionClosed, GraphReset]\<rparr>) = (r, s')))
   \<and> rows_in_full (\<lambda>j. [RateCell i j, PsnrCell i j]) [0..<nb_images]
        (fix_gamma_image env reference_uint8 h_in w_in is_lossless idx_map_exception
           list_rotation positions_top_left quantized_y_float32 bin_widths_test
           path_to_binary_probabilities path_to_storage reconstruction_uint8 i) s
   \<and> rows_in_full (\<lambda>j. [RateCell i j, PsnrCell i j]) [0..<nb_images]
        (vary_gamma_image env reference_uint8 h_in w_in list_rotation positions_top_left
           quantized_y_float32 bin_widths path_to_storage reconstruction_uint8 i) s"
proof (intro conjI)
  let ?a = "fix_gamma env reference_uint8 bin_width_init multipliers idx_training gamma_scaling
        are_bin_widths_learned is_lossless path_to_checking_r list_rotation positions_top_left"
  have a: "?a = (fst ?a, snd ?a)" by simp
  have "list_all (holds_value (snd ?a)) (trace (snd ?a))"
    using fix_gamma_consistent fix_gamma_cells(1) [OF a] by (rule consistent_holds_values)
  with fix_gamma_cells [OF a]
  show "written_in_order (length multipliers) (fst (shape3 reference_uint8)) ?a"
    by (simp add: written_in_order_def)
  let ?b = "vary_gamma_fix_bin_widths env reference_uint8 bin_width_init idxs_training
          gammas_scaling path_to_checking_r list_rotation positions_top_left"
  have b: "?b = (fst ?b, snd ?b)" by simp
  have "list_all (holds_value (snd ?b)) (trace (snd ?b))"
  proof (cases "length idxs_training = length gammas_scaling")
    case True
    then show ?thesis
      using vary_gamma_consistent vary_gamma_cells(1) [OF b]
      by (intro consistent_holds_values) 
  next
    case False
    then show ?thesis by (simp add: vary_gamma_fix_bin_widths_def)
  qed
  with vary_gamma_cells [OF b]
  show "written_in_order (length gammas_scaling) (fst (shape3 reference_uint8)) ?b"
    by (simp add: written_in_order_def)
  from a show "case ?a of
        (r, s') \<Rightarrow>
          (isl r \<and> cells_written (trace s') = [])
          \<or> (\<exists>entropy_ae (y_float32 :: tensor4) isolated_decoder map_mean idx_map_exception
                centered s1.
                for_range [0..<length multipliers]
                  (fix_gamma_point env reference_uint8 (fst (shape3 reference_uint8))
                     (fst (snd (shape3 reference_uint8))) (snd (snd (shape3 reference_uint8)))
                     is_lossless idx_map_exception list_rotation positions_top_left multipliers
                     (get_bin_widths env entropy_ae
                        (path_to_restore_of
                           (suffix_of env are_bin_widths_learned bin_width_init gamma_scaling)
                           idx_training))
                     centered
                     (numpy_tile4 map_mean (fst (shape3 reference_uint8)) (shape4_1 y_float32)
                        (shape4_2 y_float32))
                     isolated_decoder
                     (path_to_restore_of
                        (suffix_of env are_bin_widths_learned bin_width_init gamma_scaling)
                        idx_training)
                     (path_to_stats_of
                        (suffix_of env are_bin_widths_learned bin_width_init gamma_scaling)
                        idx_training)
                     (path_to_vis_of path_to_checking_r
                        (suffix_of env are_bin_widths_learned bin_width_init gamma_scaling)
                        is_lossless))
                  ((initial_state (length multipliers) (fst (shape3 reference_uint8)))
                     \<lparr>trace := [EncoderBuilt, SessionOpened, SessionClosed, GraphReset,
                                 DecoderBuilt, SessionOpened]\<rparr>) = (r, s1)
                \<and> cells_written (trace s') = cells_written (trace s1)
                \<and> rate s' = rate s1 \<and> psnr s' = psnr s1)"
  proof (cases rule: fix_gamma_outcome)
    case (early e t)
    then have "isl (fst ?a) \<and> cells_written (trace (snd ?a)) = []"
      by (auto simp: cells_written_def)
    then show ?thesis by (simp add: split_def)
  next
    case (loop entropy_ae y_float32 isolated_decoder map_mean idx_map_exception
        centered_y_float32 s1)
    have "cells_written (trace (snd ?a)) = cells_written (trace s1)
        \<and> rate (snd ?a) = rate s1 \<and> psnr (snd ?a) = psnr s1"
      unfolding loop(7) by (simp add: cells_written_def)
    with loop(6) show ?thesis
      unfolding split_def by blast
  qed
  show "length idxs_training = length gammas_scaling \<longrightarrow>
        ?b = for_range [0..<length gammas_scaling]
            (vary_gamma_point env reference_uint8 (fst (shape3 reference_uint8))
               (fst (snd (shape3 reference_uint8))) (snd (snd (shape3 reference_uint8)))
               bin_width_init idxs_training gammas_scaling path_to_checking_r list_rotation
               positions_top_left)
            (initial_state (length gammas_scaling) (fst (shape3 reference_uint8)))"
    by (simp add: vary_gamma_fix_bin_widths_def Let_def split_def)
  show "rows_in_full (\<lambda>i. concat (map (\<lambda>j. [RateCell i j, PsnrCell i j]) [0..<nb_images]))
        [0..<nb_points]
        (fix_gamma_point env reference_uint8 nb_images h_in w_in is_lossless idx_map_exception
           list_rotation positions_top_left multipliers bin_widths centered_y_float32
           tiled_map_mean isolated_decoder path_to_restore path_to_stats path_to_vis) s"
    by (rule rows_in_full_loop) (rule yields_written_fix_gamma_point)
  show "rows_in_full (\<lambda>i. concat (map (\<lambda>j. [RateCell i j, PsnrCell i j]) [0..<nb_images]))
        [0..<nb_points]
        (vary_gamma_point env reference_uint8 nb_images h_in w_in bin_width_init idxs_training
           gammas_scaling path_to_checking_r list_rotation positions_top_left) s"
    by (rule rows_in_full_loop) (rule yields_written_vary_gamma_point)
  let ?p = "fix_gamma_point env reference_uint8 nb_images h_in w_in is_lossless
             idx_map_exception list_rotation positions_top_left multipliers bin_widths
             centered_y_float32 tiled_map_mean isolated_decoder path_to_restore path_to_stats
             path_to_vis i s"
  have p: "?p = (fst ?p, snd ?p)" by simp
  from p show "case ?p of
        (r, s') \<Rightarrow>
          (isl r \<and> cells_written (trace s') = cells_written (trace s)
             \<and> rate s' = rate s \<and> psnr s' = psnr s)
          \<or> (\<exists>t reconstruction_uint8.
                for_range [0..<nb_images]
                  (fix_gamma_image env reference_uint8 h_in w_in is_lossless idx_map_exception
                     list_rotation positions_top_left
                     (quantize_per_map centered_y_float32
                        (map (\<lambda>b. multipliers ! i * b) bin_widths))
                     (map (\<lambda>b. multipliers ! i * b) bin_widths)
                     (path_to_binary_probabilities_of path_to_stats
                        (float_to_str env (multipliers ! i)))
                     (path_to_vis @ ''multiplier_'' @ float_to_str env (multipliers ! i) @ ''/'')
                     reconstruction_uint8 i)
                  (s\<lparr>trace := trace s @ [DecoderFed t]\<rparr>) = (r, s'))"
  proof (cases rule: fix_gamma_point_outcome)
    case (early e t)
    then have "isl (fst ?p) \<and> cells_written (trace (snd ?p)) = cells_written (trace s)
        \<and> rate (snd ?p) = rate s \<and> psnr (snd ?p) = psnr s"
      by simp
    then show ?thesis by (simp add: split_def)
  next
    case (loop t reconstruction_float32 reconstruction reconstruction_uint8)
    from loop(6) show ?thesis
      unfolding split_def
      by blast
  qed
  let ?q = "vary_gamma_point env reference_uint8 nb_images h_in w_in bin_width_init
             idxs_training gammas_scaling path_to_checking_r list_rotation positions_top_left
             i s"
  have q: "?q = (fst ?q, snd ?q)" by simp
  from q show "case ?q of
        (r, s') \<Rightarrow>
          (isl r \<and> cells_written (trace s') = cells_written (trace s)
             \<and> rate s' = rate s \<and> psnr s' = psnr s)
          \<or> (\<exists>q widths path_to_storage reconstruction_uint8.
                for_range [0..<nb_images]
                  (vary_gamma_image env reference_uint8 h_in w_in list_rotation
                     positions_top_left q widths path_to_storage reconstruction_uint8 i)
                  (s\<lparr>trace := trace s @
                      [EncoderBuilt, SessionOpened, SessionClosed, GraphReset, DecoderBuilt,
                       SessionOpened, DecoderFed q, SessionClosed, GraphReset]\<rparr>) = (r, s'))"
  proof (cases rule: vary_gamma_point_outcome)
    case (early e t q)
    then have "isl (fst ?q) \<and> cells_written (trace (snd ?q)) = cells_written (trace s)
        \<and> rate (snd ?q) = rate s \<and> psnr (snd ?q) = psnr s"
      by (auto simp: cells_written_def)
    then show ?thesis by (simp add: split_def)
  next
    case (loop q widths path_to_storage reconstruction_uint8)
    then show ?thesis
      unfolding split_def
      by blast
  qed
  show "rows_in_full (\<lambda>j. [RateCell i j, PsnrCell i j]) [0..<nb_images]
        (fix_gamma_image env reference_uint8 h_in w_in is_lossless idx_map_exception
           list_rotation positions_top_left quantized_y_float32 bin_widths_test
           path_to_binary_probabilities path_to_storage reconstruction_uint8 i) s"
    by (rule rows_in_full_loop) (rule yields_written_fix_gamma_image)
  show "rows_in_full (\<lambda>j. [RateCell i j, PsnrCell i j]) [0..<nb_images]
        (vary_gamma_image env reference_uint8 h_in w_in list_rotation positions_top_left
           quantized_y_float32 bin_widths path_to_storage reconstruction_uint8 i) s"
    by (rule rows_in_full_loop) (rule yields_written_vary_gamma_image)
qed

text \<open>
  Two runs that return: all eight cells of the 2 by 2 matrices are assigned, and both
  configurations of the sweep over autoencoders return. With a coder that fails on the
  second image, the body of the first image returns, the body of the second raises, and
  the two cells of the first image are the cells assigned.
\<close>

theorem sweeps_write_in_order_witness:
  "\<not> isl (fst (fix_gamma example_env [[[16]], [[200]]] 1 [1, 2] 10 1 False True ''r/'' [] []))
   \<and> written_in_order 2 2
        (fix_gamma example_env [[[16]], [[200]]] 1 [1, 2] 10 1 False True ''r/'' [] [])
   \<and> cells_written (trace (snd
        (fix_gamma example_env [[[16]], [[200]]] 1 [1, 2] 10 1 False True ''r/'' [] [])))
       = schedule 2 2
   \<and> written_in_order 2 2
        (vary_gamma_fix_bin_widths example_env [[[16]], [[200]]] 1 [10, 10] [1, 2] ''r/'' [] [])
   \<and> vary_gamma_fix_bin_widths example_env [[[16]], [[200]]] 1 [10, 10] [1, 2] ''r/'' [] []
       = for_range [0..<2]
           (vary_gamma_point example_env [[[16]], [[200]]] 2 1 1 1 [10, 10] [1, 2] ''r/'' [] [])
           (initial_state 2 2)
   \<and> rows_in_full (\<lambda>i. concat (map (\<lambda>j. [RateCell i j, PsnrCell i j]) [0..<2])) [0..<2]
        (vary_gamma_point example_env [[[16]], [[200]]] 2 1 1 1 [10, 10] [1, 2] ''r/'' [] [])
        (initial_state 2 2)
   \<and> completed [0..<2]
        (vary_gamma_point example_env [[[16]], [[200]]] 2 1 1 1 [10, 10] [1, 2] ''r/'' [] [])
        (initial_state 2 2) = 2
   \<and> rows_in_full (\<lambda>j. [RateCell 0 j, PsnrCell 0 j]) [0..<2]
        (fix_gamma_image failing_coder_env [[[16]], [[200]]] 1 1 True (Some 0) [] []
           [[[[16]]], [[[200]]]] [1] ''p.npy'' ''r/'' [[[16]], [[200]]] 0)
        (initial_state 2 2)
   \<and> completed [0..<2]
        (fix_gamma_image failing_coder_env [[[16]], [[200]]] 1 1 True (Some 0) [] []
           [[[[16]]], [[[200]]]] [1] ''p.npy'' ''r/'' [[[16]], [[200]]] 0)
        (initial_state 2 2) = 1
   \<and> cells_written (trace (snd (for_range [0..<2]
        (fix_gamma_image failing_coder_env [[[16]], [[200]]] 1 1 True (Some 0) [] []
           [[[[16]]], [[[200]]]] [1] ''p.npy'' ''r/'' [[[16]], [[200]]] 0)
        (initial_state 2 2)))) = [RateCell 0 0, PsnrCell 0 0]"
proof -
  let ?a = "fix_gamma example_env [[[16]], [[200]]] 1 [1, 2] 10 1 False True ''r/'' [] []"
  let ?v = "vary_gamma_point example_env [[[16]], [[200]]] 2 1 1 1 [10, 10] [1, 2] ''r/'' [] []"
  let ?f = "fix_gamma_image failing_coder_env [[[16]], [[200]]] 1 1 True (Some 0) [] []
           [[[[16]]], [[[200]]]] [1] ''p.npy'' ''r/'' [[[16]], [[200]]] 0"
  note T = sweeps_write_in_order [where env = example_env
      and ?reference_uint8.0 = "[[[16]], [[200]]]" and multipliers = "[1, 2]"
      and bin_width_init = 1 and idx_training = 10 and gamma_scaling = 1
      and are_bin_widths_learned = False and is_lossless = True
      and path_to_checking_r = "''r/''" and list_rotation = "[]" and positions_top_left = "[]"
      and gammas_scaling = "[1, 2]" and idxs_training = "[10, 10]"
      and nb_images = 2 and nb_points = 2 and h_in = 1 and w_in = 1
      and s = "initial_state 2 2"]
  note F = sweeps_write_in_order [where env = failing_coder_env
      and ?reference_uint8.0 = "[[[16]], [[200]]]" and is_lossless = True
      and idx_map_exception = "Some 0" and list_rotation = "[]" and positions_top_left = "[]"
      and ?quantized_y_float32.0 = "[[[[16]]], [[[200]]]]" and bin_widths_test = "[1]"
      and path_to_binary_probabilities = "''p.npy''" and path_to_storage = "''r/''"
      and ?reconstruction_uint8.0 = "[[[16]], [[200]]]" and i = 0
      and nb_images = 2 and h_in = 1 and w_in = 1 and s = "initial_state 2 2"]
  have two: "[0..<2] = [0, Suc 0]" by (simp add: upt_rec)
  have ok: "\<not> isl (fst ?a)"
    by (simp add: env_eval array_eval path_eval tools_eval run_eval sweep_eval)
  have both: "written_in_order 2 2 ?a
     \<and> written_in_order 2 2
         (vary_gamma_fix_bin_widths example_env [[[16]], [[200]]] 1 [10, 10] [1, 2] ''r/'' [] [])"
    using T [THEN conjunct1] T [THEN conjunct2, THEN conjunct1]
    by (simp add: shape3_def numeral_2_eq_2)
  then have cells: "cells_written (trace (snd ?a)) = schedule 2 2"
    using ok by (simp add: written_in_order_def)
  have loop: "vary_gamma_fix_bin_widths example_env [[[16]], [[200]]] 1 [10, 10] [1, 2] ''r/'' [] []
       = for_range [0..<2] ?v (initial_state 2 2)"
    using T [THEN conjunct2, THEN conjunct2, THEN conjunct2, THEN conjunct1]
    by (simp add: shape3_def numeral_2_eq_2)
  have rows: "rows_in_full (\<lambda>i. concat (map (\<lambda>j. [RateCell i j, PsnrCell i j]) [0..<2])) [0..<2]
        ?v (initial_state 2 2)"
    by (rule T [THEN conjunct2, THEN conjunct2, THEN conjunct2, THEN conjunct2, THEN conjunct2,
          THEN conjunct1])
  have all_done: "completed [0..<2] ?v (initial_state 2 2) = 2"
    by (simp add: two env_eval array_eval path_eval tools_eval run_eval sweep_eval)
  have image_rows: "rows_in_full (\<lambda>j. [RateCell 0 j, PsnrCell 0 j]) [0..<2] ?f (initial_state 2 2)"
    by (rule F [THEN conjunct2, THEN conjunct2, THEN conjunct2, THEN conjunct2, THEN conjunct2,
          THEN conjunct2, THEN conjunct2, THEN conjunct2, THEN conjunct1])
  have image_done: "completed [0..<2] ?f (initial_state 2 2) = 1"
    by (simp add: two env_eval array_eval path_eval tools_eval run_eval sweep_eval)
  have image_cells: "cells_written (trace (snd (for_range [0..<2] ?f (initial_state 2 2))))
      = [RateCell 0 0, PsnrCell 0 0]"
    by (simp add: two env_eval array_eval path_eval tools_eval run_eval sweep_eval
        cells_written_def)
  from ok both cells loop rows all_done image_rows image_done image_cells show ?thesis by blast
qed

text \<open>
  The claim as stated fails: with a coder that fails on the second image, the first
  configuration fails, and its cells for the first image have been assigned.
\<close>

theorem failed_configuration_counterexample:
  "fst (fix_gamma failing_coder_env [[[16]], [[200]]] 1 [1, 2] 10 1 False True ''r/'' [] [])
     = Inl UncodableChannelError
   \<and> cells_written (trace (snd
        (fix_gamma failing_coder_env [[[16]], [[200]]] 1 [1, 2] 10 1 False True ''r/'' [] [])))
       = [RateCell 0 0, PsnrCell 0 0]
   \<and> rate (snd (fix_gamma failing_coder_env [[[16]], [[200]]] 1 [1, 2] 10 1 False True ''r/'' [] []))
       = [[8, 0], [0, 0]]
   \<and> psnr (snd (fix_gamma failing_coder_env [[[16]], [[200]]] 1 [1, 2] 10 1 False True ''r/'' [] []))
       = [[PlusInf, Finite 0], [Finite 0, Finite 0]]"
  by (simp add: env_eval array_eval path_eval tools_eval run_eval sweep_eval cells_written_def)

text \<open>
  C3, as amended. Recording into a cell is the plain assignment \<^verbatim>\<open>m[i, j] = v\<close>:
  inside the bounds of the matrix it succeeds whether or not the cell was assigned
  before, and stores the new value; it never raises an aggregation conflict. The sweeps
  themselves assign no cell twice.
\<close>

theorem assignment_overwrites:
  "(i < length (rate s) \<and> j < length (rate s ! i) \<longrightarrow>
      set_rate i j v s =
        (Inr (), s\<lparr>rate := (rate s)[i := (rate s ! i)[j := v]],
                   trace := trace s @ [RateWritten i j v]\<rparr>))
   \<and> (i < length (psnr s) \<and> j < length (psnr s ! i) \<longrightarrow>
      set_psnr i j w s =
        (Inr (), s\<lparr>psnr := (psnr s)[i := (psnr s ! i)[j := w]],
                   trace := trace s @ [PsnrWritten i j w]\<rparr>))
   \<and> fst (set_rate i j v s) \<noteq> Inl AggregationConflictError
   \<and> fst (set_psnr i j w s) \<noteq> Inl AggregationConflictError
   \<and> distinct (cells_written (trace (snd
        (fix_gamma env reference_uint8 bin_width_init multipliers idx_training gamma_scaling
           are_bin_widths_learned is_lossless path_to_checking_r list_rotation
           positions_top_left))))
   \<and> distinct (cells_written (trace (snd
        (vary_gamma_fix_bin_widths env reference_uint8 bin_width_init idxs_training
           gammas_scaling path_to_checking_r list_rotation positions_top_left))))"
proof (intro conjI)
  let ?a = "fix_gamma env reference_uint8 bin_width_init multipliers idx_training gamma_scaling
        are_bin_widths_learned is_lossless path_to_checking_r list_rotation positions_top_left"
  have a: "?a = (fst ?a, snd ?a)" by simp
  show "distinct (cells_written (trace (snd ?a)))"
    using fix_gamma_cells(1) [OF a] distinct_schedule by (rule is_prefix_of_distinct)
  let ?b = "vary_gamma_fix_bin_widths env reference_uint8 bin_width_init idxs_training
          gammas_scaling path_to_checking_r list_rotation positions_top_left"
  have b: "?b = (fst ?b, snd ?b)" by simp
  show "distinct (cells_written (trace (snd ?b)))"
    using vary_gamma_cells(1) [OF b] distinct_schedule by (rule is_prefix_of_distinct)
qed (auto simp: set_rate_def set_psnr_def setitem2_def)

text \<open>
  An assignment to a cell that was assigned before: it succeeds and replaces the value.
\<close>

theorem assignment_overwrites_witness:
  "0 < length (rate \<lparr>rate = [[1]], psnr = [[Finite 0]], trace = [RateWritten 0 0 1 :: nat event]\<rparr>)
   \<and> 0 < length (rate \<lparr>rate = [[1]], psnr = [[Finite 0]], trace = [RateWritten 0 0 1 :: nat event]\<rparr> ! 0)
   \<and> set_rate 0 0 2 \<lparr>rate = [[1]], psnr = [[Finite 0]], trace = [RateWritten 0 0 1 :: nat event]\<rparr>
       = (Inr (), \<lparr>rate = [[2]], psnr = [[Finite 0]],
                   trace = [RateWritten 0 0 1, RateWritten 0 0 2]\<rparr>)
   \<and> set_psnr 0 0 PlusInf \<lparr>rate = [[1]], psnr = [[Finite 0]], trace = [RateWritten 0 0 1 :: nat event]\<rparr>
       = (Inr (), \<lparr>rate = [[1]], psnr = [[PlusInf]],
                   trace = [RateWritten 0 0 1, PsnrWritten 0 0 PlusInf]\<rparr>)"
  using assignment_overwrites [of 0 "\<lparr>rate = [[1]], psnr = [[Finite 0]],
      trace = [RateWritten 0 0 1 :: nat event]\<rparr>" 0 2 PlusInf,
      THEN conjunct1]
    assignment_overwrites [of 0 "\<lparr>rate = [[1]], psnr = [[Finite 0]],
      trace = [RateWritten 0 0 1 :: nat event]\<rparr>" 0 2 PlusInf,
      THEN conjunct2, THEN conjunct1]
  by simp

text \<open>
  The claim as stated fails: recording the cell (0, 0) twice raises nothing, and the
  value recorded first is replaced.
\<close>

theorem duplicate_record_counterexample:
  "set_rate 0 0 2 (snd (set_rate 0 0 1 (initial_state 1 1 :: nat sweep_state)))
     = (Inr (), \<lparr>rate = [[2]], psnr = [[Finite 0]],
                 trace = [RateWritten 0 0 1, RateWritten 0 0 2]\<rparr>)
   \<and> fst (set_rate 0 0 2 (snd (set_rate 0 0 1 (initial_state 1 1 :: nat sweep_state))))
       \<noteq> Inl AggregationConflictError
   \<and> rate (snd (set_rate 0 0 2 (snd (set_rate 0 0 1 (initial_state 1 1 :: nat sweep_state)))))
       ! 0 ! 0 \<noteq> 1"
  by (simp add: set_rate_def setitem2_def initial_state_def numpy_zeros_def)

section \<open>The lifecycle of the models\<close>




section \<open>The tensor fed to the decoder\<close>




end
